theory Spec2Isabelle
  imports Main "HOL-Library.Word" "HOL-Library.Signed_Division" "HOL-Library.AList"
begin

section \<open>The substrate writer of the bridge relayer (chains/substrate/writer.go)\<close>

text \<open>
  The writer redeems a deposit message on the destination chain through a multi-signature
  extrinsic. This theory embeds \<open>ResolveMessage\<close>, \<open>checkRepeat\<close>, \<open>redeemTx\<close>,
  \<open>submitTx\<close>, \<open>getRound\<close> and \<open>isFinish\<close> as functions that return the trace of
  the observable effects (sleeps, log lines, library calls) together with the result.
  What the chain, the listener and the other goroutines do is an input: a list of
  observations, one per loop iteration. A loop that has used all its observations and is
  still running ends in \<open>Waiting\<close>.
\<close>

subsection \<open>Data\<close>

type_synonym bytes = "8 word list"
type_synonym ChainId = "8 word"
type_synonym Duration = int \<comment> \<open>time.Duration: nanoseconds in an int64\<close>
type_synonym Metadata = "string list" \<comment> \<open>the call names the runtime metadata resolves\<close>

definition int64 :: "int \<Rightarrow> int" where
  \<comment> \<open>the value an int64 holds after an arithmetic result wraps around\<close>
  "int64 x = sint (word_of_int x :: 64 word)"

definition RoundInterval :: Duration where
  "RoundInterval = 1000000000 * 6"

definition oneKSM :: int where "oneKSM = 1000000"
definition oneDOT :: int where "oneDOT = 100000000"
definition oneXBTC :: int where "oneXBTC = 10000000000"
definition onePCX :: int where "onePCX = 10000000000"

definition xRole :: "8 word" where "xRole = 255"

text \<open>
  \<open>MultiSignTx\<close>, \<open>MultiSigAsMulti\<close>, \<open>Dest\<close>, \<open>Round\<close> and \<open>Relayer\<close> are declared in
  other files of the package; the fields below are the ones writer.go reads. The fields of
  \<open>Dest\<close> and of \<open>MultiSigAsMulti\<close> carry a prefix where two structs share a field name.
\<close>

record MultiSignTx =
  BlockNumber :: int
  MultiSignTxId :: int

record MultiSigAsMulti =
  OriginMsTx :: MultiSignTx
  Executed :: bool
  msDestAddress :: string
  msDestAmount :: string
  Others :: "string list list"

record Dest =
  destDepositNonce :: "64 word"
  DestAddress :: bytes
  DestAmount :: bytes

datatype payload_item = PBytes bytes | POther

record Message =
  Source :: ChainId
  Destination :: ChainId
  DepositNonce :: "64 word"
  Payload :: "payload_item list"

record Round =
  blockHeight :: int
  blockRound :: int

datatype Address = Address (IsAccountID: bool) (AsAccountID: bytes)

text \<open>
  The constants of the package and of its \<open>config\<close> package that writer.go uses and that
  are declared outside this file. They are parameters of every function below.
\<close>

record config =
  Polkadot :: ChainId
  Kusama :: ChainId
  ChainXBTC :: ChainId
  ChainXPCX :: ChainId
  FixedDOTFee :: int
  FixedKSMFee :: int
  FeeRate :: int
  BlockRetryLimit :: int
  XBTC :: "64 word"
  YesVoted :: MultiSignTx
  NotExecuted :: MultiSignTx
  AmountError :: MultiSignTx

text \<open>
  The functions of the external libraries (go-substrate-rpc-client, substrate-go) whose
  results the writer compares. They are parameters as well.
\<close>

record lib =
  BytesToHex :: "bytes \<Rightarrow> string"
  NewAddressFromHexAccountID :: "string \<Rightarrow> Address"
  NewAddressFromAccountID :: "bytes \<Rightarrow> Address"

text \<open>
  The writer: the fields of \<open>writer\<close>, of its relayer and of its listener that are
  read. The writer is taken as \<open>NewWriter\<close> builds it when its two RPCs succeed:
  \<open>msApi\<close> and \<open>meta\<close> are not nil. The listener's table \<open>msTxAsMulti\<close> and the
  map \<open>messages\<close> change under other goroutines, so they are inputs of the functions
  that read them.
\<close>

record writer =
  meta :: Metadata
  chainId :: ChainId
  currentRelayer :: "64 word"
  totalRelayers :: "64 word"
  PublicKey :: bytes
  multiSignThreshold :: "16 word"
  otherSignatories :: "bytes list"
  maxWeight :: "64 word"

datatype timepoint = NilTimePoint | EmptyBytes | TimePointSafe32 "32 word" "32 word"

datatype Call = Call (callMethod: string) (callArgs: "arg list")
and arg =
    ArgU8 "8 word"
  | ArgU16 "16 word"
  | ArgMultiAddress bytes
  | ArgAddress Address
  | ArgUCompact int
  | ArgAccountIDs "bytes list"
  | ArgTimePoint timepoint
  | ArgEncodedCall Call
  | ArgBool bool
  | ArgWeight "64 word"

datatype logmsg =
    NotMine | StartATx | MaybeAProblem | RedeemTxTryTooManyTimes | MultiSigExtrinsicError
  | MultiSigExtrinsicExecuted | FinishARedeemTx | RelayerFinishTheTx | MeetARepeatTx
  | RedeemANegAmount | RedeemNegAmountError | NewBalancesTransferKeepAliveCallError
  | NewXAssetsTransferCallError | NewBalancesTransferCallError
  | TryToMakeNewMultiSigTx | TryToApproveMultiSigTx | NewMultiCallError
  | NewApiError | GetMetadataError | GetBlockHashError | GetRuntimeVersionLatestError
  | CreateStorageKeyError | GetStorageLatestError | SignMultiSignTxError
  | SubmitExtrinsicFailed | FailedToFetchFinalizedHash | FailedToFetchFinalizedHeader
  | RelayerHasVote

datatype signing = MultiSign | Sign

datatype event =
    Sleep Duration
  | LogInfo logmsg
  | LogWarn logmsg
  | LogError logmsg
  | CrossChainTx string string int int int
  | Printf string
  | SubmitTxCalled Call
  | SubmitAndWatchExtrinsic Call signing
  | DeleteMsTx MultiSignTx
  | DeleteMessage Dest
  | Spawn

datatype panic = DivideByZero | IndexOutOfRange | TypeAssertion | NilDereference

datatype 'a outcome = Returned 'a | Panicked panic | Waiting

subsection \<open>math/big\<close>

definition big_SetBytes :: "bytes \<Rightarrow> int" where
  \<comment> \<open>the bytes read as a big-endian unsigned integer\<close>
  "big_SetBytes bs = foldl (\<lambda>acc b. acc * 256 + uint b) 0 bs"

definition big_Div :: "int \<Rightarrow> int \<Rightarrow> int option" where
  \<comment> \<open>Euclidean division; a zero divisor panics\<close>
  "big_Div x y =
     (if y = 0 then None else if 0 < y then Some (x div y) else Some (- (x div (- y))))"

definition big_Mod :: "int \<Rightarrow> int \<Rightarrow> int option" where
  \<comment> \<open>Euclidean modulus; a zero divisor panics\<close>
  "big_Mod x y = (if y = 0 then None else Some (x mod \<bar>y\<bar>))"

fun digitsOf :: "nat \<Rightarrow> string" where
  "digitsOf n =
     (if n < 10 then [char_of (48 + n)] else digitsOf (n div 10) @ [char_of (48 + n mod 10)])"

definition big_String :: "int \<Rightarrow> string" where
  "big_String x = (if x < 0 then CHR ''-'' # digitsOf (nat (- x)) else digitsOf (nat x))"

subsection \<open>Building the transfer call (redeemTx, lines 211 to 337)\<close>

text \<open>
  Modelled from the spec: the method names of the \<open>utils\<close> package
  (\<open>BalancesTransferKeepAliveMethod\<close>, \<open>XAssetsTransferMethod\<close>, \<open>MultisigAsMulti\<close>) are
  declared outside writer.go. The spec names the calls they stand for:
  \<open>Balances.transfer_keep_alive\<close>, \<open>XAssets.transfer\<close> and \<open>Multisig.as_multi\<close>.
\<close>

definition BalancesTransferKeepAliveMethod :: string where
  "BalancesTransferKeepAliveMethod = ''Balances.transfer_keep_alive''"

definition XAssetsTransferMethod :: string where
  "XAssetsTransferMethod = ''XAssets.transfer''"

definition MultisigAsMulti :: string where
  "MultisigAsMulti = ''Multisig.as_multi''"

definition NewCall :: "Metadata \<Rightarrow> string \<Rightarrow> arg list \<Rightarrow> Call option" where
  \<comment> \<open>types.NewCall: an error when the metadata does not resolve the call name\<close>
  "NewCall md name as = (if name \<in> set md then Some (Call name as) else None)"

definition newCallOrLog :: "Metadata \<Rightarrow> string \<Rightarrow> arg list \<Rightarrow> logmsg \<Rightarrow> event list \<times> Call" where
  \<comment> \<open>\<open>c, err = types.NewCall(...); if err != nil { w.logErr(msg, err) }\<close>\<close>
  "newCallOrLog md name as msg =
     (case NewCall md name as of
        Some c \<Rightarrow> ([], c)
      | None \<Rightarrow> ([LogError msg], Call [] []))"

definition payloadBytes :: "Message \<Rightarrow> nat \<Rightarrow> panic + bytes" where
  \<comment> \<open>\<open>m.Payload[i].([]byte)\<close>\<close>
  "payloadBytes m i =
     (if i < length (Payload m)
      then (case Payload m ! i of PBytes b \<Rightarrow> Inr b | POther \<Rightarrow> Inl TypeAssertion)
      else Inl IndexOutOfRange)"

datatype built = BuildPanic panic | BuildAmountError | Built Call int string

definition feeTransfer ::
  "Metadata \<Rightarrow> string \<Rightarrow> string \<Rightarrow> int \<Rightarrow> int \<Rightarrow> int \<Rightarrow> int \<Rightarrow> logmsg \<Rightarrow> bytes \<Rightarrow> string
     \<Rightarrow> event list \<times> built" where
  \<comment> \<open>the Polkadot and the Kusama branch: they differ in the unit, the fixed fee and the log line\<close>
  "feeTransfer md tokenX tokenY amount unit fixedFee rate negMsg recipient destAddress =
     (case big_Div amount unit of
        None \<Rightarrow> ([], BuildPanic DivideByZero)
      | Some receiveAmount \<Rightarrow>
          (case big_Div receiveAmount rate of
             None \<Rightarrow> ([], BuildPanic DivideByZero)
           | Some additionalFee \<Rightarrow>
               (let fee = fixedFee + additionalFee;
                    actualAmount = receiveAmount - fee;
                    logged = [CrossChainTx tokenX tokenY receiveAmount fee actualAmount]
                in if actualAmount < 0 then (logged @ [LogError negMsg], BuildAmountError)
                   else (let (errs, c) = newCallOrLog md BalancesTransferKeepAliveMethod
                                 [ArgMultiAddress recipient, ArgUCompact actualAmount]
                                 NewBalancesTransferKeepAliveCallError
                         in (logged @ errs, Built c actualAmount destAddress)))))"

definition buildTransfer :: "config \<Rightarrow> lib \<Rightarrow> writer \<Rightarrow> Message \<Rightarrow> event list \<times> built" where
  "buildTransfer k L w m =
     (case payloadBytes m 0 of
        Inl p \<Rightarrow> ([], BuildPanic p)
      | Inr amountBytes \<Rightarrow>
     (case payloadBytes m 1 of
        Inl p \<Rightarrow> ([], BuildPanic p)
      | Inr recipient \<Rightarrow>
     (let amount = big_SetBytes amountBytes;
          destAddress = BytesToHex L (AsAccountID (NewAddressFromAccountID L recipient));
          addressRecipient = NewAddressFromAccountID L recipient
      in
        if Destination m = Polkadot k then
          feeTransfer (meta w) ''BDOT'' ''DOT'' amount oneDOT (FixedDOTFee k) (FeeRate k)
            RedeemANegAmount recipient destAddress
        else if Destination m = Kusama k then
          feeTransfer (meta w) ''BKSM'' ''KSM'' amount oneKSM (FixedKSMFee k) (FeeRate k)
            RedeemNegAmountError recipient destAddress
        else if Destination m = ChainXBTC k then
          (case big_Div amount oneXBTC of
             None \<Rightarrow> ([], BuildPanic DivideByZero)
           | Some actualAmount \<Rightarrow>
               if actualAmount < 0 then ([LogError RedeemNegAmountError], BuildAmountError)
               else (let (errs, c) = newCallOrLog (meta w) XAssetsTransferMethod
                             [ArgU8 xRole, ArgAddress addressRecipient,
                              ArgUCompact (uint (XBTC k)), ArgUCompact actualAmount]
                             NewXAssetsTransferCallError
                     in (CrossChainTx ''BBTC'' ''XBTC'' actualAmount 0 actualAmount # errs,
                         Built c actualAmount destAddress)))
        else if Destination m = ChainXPCX k then
          (case big_Div amount onePCX of
             None \<Rightarrow> ([], BuildPanic DivideByZero)
           | Some actualAmount \<Rightarrow>
               (let logged = [CrossChainTx ''BPCX'' ''PCX'' actualAmount 0 actualAmount]
                in if actualAmount < 0
                   then (logged @ [LogError RedeemNegAmountError], BuildAmountError)
                   else (let (errs, c) = newCallOrLog (meta w) BalancesTransferKeepAliveMethod
                                 [ArgU8 xRole, ArgAddress addressRecipient,
                                  ArgUCompact actualAmount]
                                 NewBalancesTransferCallError
                         in (logged @ errs, Built c actualAmount destAddress))))
        else ([], Built (Call [] []) 0 destAddress))))"

subsection \<open>isFinish\<close>

definition isSelf :: "lib \<Rightarrow> writer \<Rightarrow> string \<Rightarrow> bool" where
  \<comment> \<open>\<open>voter == relayer\<close>: the signatory is this relayer's public key\<close>
  "isSelf L w signatory =
     (NewAddressFromHexAccountID L signatory = NewAddressFromAccountID L (PublicKey w))"

fun signatoryLoop :: "lib \<Rightarrow> writer \<Rightarrow> string list \<Rightarrow> bool \<Rightarrow> bool" where
  "signatoryLoop L w [] isVote = isVote"
| "signatoryLoop L w (signatory # rest) isVote =
     signatoryLoop L w rest (if isSelf L w signatory then False else isVote)"

fun othersLoop :: "config \<Rightarrow> lib \<Rightarrow> writer \<Rightarrow> string list list
     \<Rightarrow> event list \<times> bool \<times> MultiSignTx" where
  "othersLoop k L w [] = ([], False, NotExecuted k)"
| "othersLoop k L w (others # rest) =
     (if signatoryLoop L w others True then ([LogInfo RelayerHasVote], True, YesVoted k)
      else othersLoop k L w rest)"

definition isFinish :: "config \<Rightarrow> lib \<Rightarrow> writer \<Rightarrow> MultiSigAsMulti
     \<Rightarrow> event list \<times> bool \<times> MultiSignTx" where
  "isFinish k L w ms =
     (if Executed ms then ([], True, OriginMsTx ms) else othersLoop k L w (Others ms))"

subsection \<open>getRound\<close>

text \<open>
  One call of \<open>getRound\<close> sees the answers of two RPCs: whether \<open>GetFinalizedHead\<close>
  gave an error, the header pointer \<open>GetHeader\<close> gave (\<open>None\<close> is the nil pointer; of
  the header only \<open>Number\<close>, a 32-bit block number, is read) and whether it gave an error.
\<close>

record round_obs =
  finalizedHeadErr :: bool
  finalizedHeader :: "32 word option"
  headerErr :: bool

definition getRound :: "writer \<Rightarrow> round_obs \<Rightarrow> event list \<times> (panic + Round)" where
  "getRound w obs =
     (let logged = (if finalizedHeadErr obs then [LogError FailedToFetchFinalizedHash] else [])
                 @ (if headerErr obs then [LogError FailedToFetchFinalizedHeader] else [])
      in case finalizedHeader obs of
           None \<Rightarrow> (logged, Inl NilDereference)
         | Some number \<Rightarrow>
             (let height = uint number
              in case big_Mod height (sint (totalRelayers w)) of
                   None \<Rightarrow> (logged, Inl DivideByZero)
                 | Some r \<Rightarrow> (logged, Inr \<lparr>blockHeight = height, blockRound = r\<rparr>)))"

subsection \<open>submitTx\<close>

text \<open>
  One attempt of the retry loop sees the answers of the RPCs it makes. \<open>newApiOk\<close> is
  whether \<open>NewSubstrateAPI\<close>, called for the ChainX chains, gave a connection rather than
  an error and a nil pointer. \<open>retryTimes\<close> is a Go \<open>int\<close>; the model counts in \<open>int\<close>.
\<close>

record attempt =
  metadataOk :: bool
  blockHashOk :: bool
  runtimeVersionOk :: bool
  storageKeyOk :: bool
  storageOk :: bool
  signOk :: bool
  submitOk :: bool

record submit_env =
  newApiOk :: bool
  attempts :: "attempt list"

definition prepend :: "event list \<Rightarrow> event list \<times> 'a \<Rightarrow> event list \<times> 'a" where
  "prepend es r = (es @ fst r, snd r)"

definition submitFailedLine :: string where
  "submitFailedLine = ''submit Tx failed, check it'' @ [CHR 0x0A]"

definition signingOf :: "config \<Rightarrow> writer \<Rightarrow> signing" where
  "signingOf k w =
     (if chainId w = Kusama k then MultiSign
      else if chainId w = Polkadot k then MultiSign
      else if chainId w = ChainXBTC k then Sign
      else if chainId w = ChainXPCX k then Sign
      else MultiSign)"

fun submitLoop :: "config \<Rightarrow> writer \<Rightarrow> Call \<Rightarrow> int \<Rightarrow> attempt list \<Rightarrow> event list \<times> unit outcome" where
  "submitLoop k w c retryTimes [] = ([], Waiting)"
| "submitLoop k w c retryTimes (a # rest) =
     (let noMore = (if retryTimes = 0 then [Printf submitFailedLine] else [])
      in if \<not> metadataOk a then
           prepend (noMore @ [LogError GetMetadataError]) (submitLoop k w c (retryTimes - 1) rest)
         else if \<not> blockHashOk a then
           prepend (noMore @ [LogError GetBlockHashError]) (submitLoop k w c (retryTimes - 1) rest)
         else if \<not> runtimeVersionOk a then
           prepend (noMore @ [LogError GetRuntimeVersionLatestError])
             (submitLoop k w c (retryTimes - 1) rest)
         else if \<not> storageKeyOk a then
           prepend (noMore @ [LogError CreateStorageKeyError])
             (submitLoop k w c (retryTimes - 1) rest)
         else if \<not> storageOk a then
           prepend (noMore @ [LogError GetStorageLatestError])
             (submitLoop k w c (retryTimes - 1) rest)
         else
           (noMore
              @ (if signOk a then [] else [LogError SignMultiSignTxError])
              @ [SubmitAndWatchExtrinsic c (signingOf k w)]
              @ (if submitOk a then [] else [LogError SubmitExtrinsicFailed]),
            Returned ()))"

definition submitTx :: "config \<Rightarrow> writer \<Rightarrow> Call \<Rightarrow> submit_env \<Rightarrow> event list \<times> unit outcome" where
  "submitTx k w c env =
     (let fresh = (chainId w = ChainXBTC k \<or> chainId w = ChainXPCX k);
          apiErr = (if fresh \<and> \<not> newApiOk env then [LogError NewApiError] else [])
      in if fresh \<and> \<not> newApiOk env then
           (SubmitTxCalled c # apiErr
              @ (if BlockRetryLimit k = 0 then [Printf submitFailedLine] else []),
            Panicked NilDereference)
         else prepend (SubmitTxCalled c # apiErr)
                (submitLoop k w c (BlockRetryLimit k) (attempts env)))"

subsection \<open>redeemTx\<close>

datatype scanned = Finished bool MultiSignTx | Proceed timepoint "64 word"

fun scanMsTx :: "config \<Rightarrow> lib \<Rightarrow> writer \<Rightarrow> string \<Rightarrow> int \<Rightarrow> MultiSigAsMulti list
     \<Rightarrow> timepoint \<Rightarrow> 64 word \<Rightarrow> event list \<times> scanned" where
  \<comment> \<open>the loop over \<open>w.listener.msTxAsMulti\<close>, in the order the map is iterated\<close>
  "scanMsTx k L w destAddress actualAmount [] maybeTimePoint mw =
     ([], Proceed maybeTimePoint mw)"
| "scanMsTx k L w destAddress actualAmount (ms # rest) maybeTimePoint mw =
     (if msDestAddress ms = destAddress \<and> msDestAmount ms = big_String actualAmount then
        (case isFinish k L w ms of
           (logged, finished, executed) \<Rightarrow>
             if finished then (logged, Finished finished executed)
             else (logged,
                   Proceed (TimePointSafe32 (word_of_int (BlockNumber (OriginMsTx ms)))
                                            (word_of_int (MultiSignTxId (OriginMsTx ms))))
                           (maxWeight w)))
      else scanMsTx k L w destAddress actualAmount rest EmptyBytes mw)"

definition onTurn :: "config \<Rightarrow> lib \<Rightarrow> writer \<Rightarrow> Message \<Rightarrow> Call \<Rightarrow> int \<Rightarrow> string
     \<Rightarrow> MultiSigAsMulti list \<Rightarrow> submit_env \<Rightarrow> event list \<times> (bool \<times> MultiSignTx) outcome" where
  \<comment> \<open>the body of \<open>if round.blockRound.Uint64() == processRound\<close>\<close>
  "onTurn k L w m c actualAmount destAddress table env =
     (case scanMsTx k L w destAddress actualAmount table NilTimePoint 0 of
        (logged, Finished finished executed) \<Rightarrow> (logged, Returned (finished, executed))
      | (logged, Proceed tp mw) \<Rightarrow>
          (let maybeTimePoint = (if table = [] then EmptyBytes else tp);
               isTimePoint = (case maybeTimePoint of TimePointSafe32 h i \<Rightarrow> True | _ \<Rightarrow> False)
           in if mw \<noteq> 0 \<and> \<not> isTimePoint then (logged, Panicked TypeAssertion)
              else
                (let tried = [LogInfo (if mw = 0 then TryToMakeNewMultiSigTx
                                       else TryToApproveMultiSigTx)];
                     (errs, mc) = newCallOrLog (meta w) MultisigAsMulti
                                    [ArgU16 (multiSignThreshold w),
                                     ArgAccountIDs (otherSignatories w),
                                     ArgTimePoint maybeTimePoint, ArgEncodedCall c,
                                     ArgBool False, ArgWeight mw]
                                    NewMultiCallError;
                     (submitted, res) = submitTx k w mc env
                 in (logged @ tried @ errs @ submitted,
                     case res of
                       Returned u \<Rightarrow> Returned (False, NotExecuted k)
                     | Panicked p \<Rightarrow> Panicked p
                     | Waiting \<Rightarrow> Waiting))))"

fun roundLoop :: "config \<Rightarrow> lib \<Rightarrow> writer \<Rightarrow> Message \<Rightarrow> Call \<Rightarrow> int \<Rightarrow> string
     \<Rightarrow> MultiSigAsMulti list \<Rightarrow> submit_env \<Rightarrow> round_obs list
     \<Rightarrow> event list \<times> (bool \<times> MultiSignTx) outcome" where
  "roundLoop k L w m c actualAmount destAddress table env [] = ([], Waiting)"
| "roundLoop k L w m c actualAmount destAddress table env (obs # rest) =
     (if totalRelayers w = 0 then ([], Panicked DivideByZero)
      else
        (let processRound = (currentRelayer w + DepositNonce m) mod totalRelayers w
         in case getRound w obs of
              (logged, Inl p) \<Rightarrow> (logged, Panicked p)
            | (logged, Inr round) \<Rightarrow>
                if (word_of_int (blockRound round) :: 64 word) = processRound then
                  prepend logged (onTurn k L w m c actualAmount destAddress table env)
                else
                  prepend (logged @ [Sleep RoundInterval])
                    (roundLoop k L w m c actualAmount destAddress table env rest)))"

text \<open>
  What one call of \<open>redeemTx\<close> sees: the metadata \<open>UpdateMetadate\<close> fetches (\<open>None\<close> when
  the RPC gives none), one observation per turn of the round loop, the listener's table
  \<open>msTxAsMulti\<close> in the order the map iteration visits it, and the answers to \<open>submitTx\<close>.
\<close>

record redeem_env =
  metaLatest :: "Metadata option"
  rounds :: "round_obs list"
  msTxAsMulti :: "MultiSigAsMulti list"
  submitEnv :: submit_env

definition UpdateMetadate :: "writer \<Rightarrow> Metadata option \<Rightarrow> writer" where
  "UpdateMetadate w latest = (case latest of None \<Rightarrow> w | Some md \<Rightarrow> w\<lparr>meta := md\<rparr>)"

definition deferred :: "event list \<times> 'a outcome \<Rightarrow> event list \<times> 'a outcome" where
  \<comment> \<open>the deferred \<open>time.Sleep(RoundInterval)\<close> runs when the function returns or panics\<close>
  "deferred r = (case snd r of Waiting \<Rightarrow> r | _ \<Rightarrow> (fst r @ [Sleep RoundInterval], snd r))"

definition redeemTx :: "config \<Rightarrow> lib \<Rightarrow> writer \<Rightarrow> Message \<Rightarrow> redeem_env
     \<Rightarrow> writer \<times> event list \<times> (bool \<times> MultiSignTx) outcome" where
  "redeemTx k L w m env =
     (let w' = UpdateMetadate w (metaLatest env)
      in (w', deferred
           (case buildTransfer k L w' m of
              (logged, BuildPanic p) \<Rightarrow> (logged, Panicked p)
            | (logged, BuildAmountError) \<Rightarrow> (logged, Returned (True, AmountError k))
            | (logged, Built c actualAmount destAddress) \<Rightarrow>
                prepend logged
                  (roundLoop k L w' m c actualAmount destAddress (msTxAsMulti env)
                     (submitEnv env) (rounds env)))))"

subsection \<open>checkRepeat and ResolveMessage\<close>

text \<open>
  \<open>w.messages\<close> is a map from \<open>Dest\<close> to \<open>bool\<close>: an association list here. The other
  goroutines delete from it while \<open>checkRepeat\<close> polls, so each poll after the first reads
  the next of the later states of the map that the caller supplies.
\<close>

type_synonym messages = "(Dest \<times> bool) list"

definition repeats :: "Message \<Rightarrow> Dest \<Rightarrow> panic + bool" where
  \<comment> \<open>the condition of line 184; \<open>&&\<close> evaluates its right operand only when the left holds\<close>
  "repeats m dest =
     (if destDepositNonce dest \<noteq> DepositNonce m then
        (case payloadBytes m 0 of
           Inl p \<Rightarrow> Inl p
         | Inr amountBytes \<Rightarrow>
             if DestAmount dest = amountBytes then
               (case payloadBytes m 1 of
                  Inl p \<Rightarrow> Inl p
                | Inr recipient \<Rightarrow> Inr (DestAddress dest = recipient))
             else Inr False)
      else Inr False)"

fun scanMessages :: "Message \<Rightarrow> messages \<Rightarrow> bool \<Rightarrow> panic + bool" where
  "scanMessages m [] isRepeat = Inr isRepeat"
| "scanMessages m ((dest, present) # rest) isRepeat =
     (case repeats m dest of
        Inl p \<Rightarrow> Inl p
      | Inr b \<Rightarrow> scanMessages m rest (if b then True else isRepeat))"

fun checkRepeat :: "Message \<Rightarrow> messages \<Rightarrow> messages list
     \<Rightarrow> event list \<times> (bool \<times> messages) outcome" where
  "checkRepeat m msgs later =
     (case scanMessages m msgs False of
        Inl p \<Rightarrow> ([], Panicked p)
      | Inr isRepeat \<Rightarrow>
          if isRepeat then
            (case later of
               [] \<Rightarrow> ([LogInfo MeetARepeatTx, Sleep RoundInterval], Waiting)
             | next_msgs # rest \<Rightarrow>
                 prepend [LogInfo MeetARepeatTx, Sleep RoundInterval]
                   (checkRepeat m next_msgs rest))
          else ([], Returned (True, msgs)))"

definition destOf :: "Message \<Rightarrow> panic + Dest" where
  \<comment> \<open>the \<open>Dest\<close> literal of lines 92 to 96: \<open>Payload[1]\<close> is read before \<open>Payload[0]\<close>\<close>
  "destOf m =
     (case payloadBytes m 1 of
        Inl p \<Rightarrow> Inl p
      | Inr recipient \<Rightarrow>
          (case payloadBytes m 0 of
             Inl p \<Rightarrow> Inl p
           | Inr amountBytes \<Rightarrow>
               Inr \<lparr>destDepositNonce = DepositNonce m, DestAddress = recipient,
                    DestAmount = amountBytes\<rparr>))"

definition ResolveMessage :: "writer \<Rightarrow> Message \<Rightarrow> messages \<Rightarrow> messages list
     \<Rightarrow> event list \<times> (bool \<times> messages) outcome" where
  \<comment> \<open>the part that runs on the caller's goroutine; \<open>Spawn\<close> is the \<open>go\<close> statement\<close>
  "ResolveMessage w m msgs later =
     (case checkRepeat m msgs later of
        (waited, Panicked p) \<Rightarrow> (waited, Panicked p)
      | (waited, Waiting) \<Rightarrow> (waited, Waiting)
      | (waited, Returned (ok, current)) \<Rightarrow>
          if Destination m \<noteq> chainId w then
            (waited @ [LogInfo NotMine], Returned (False, current))
          else
            (case destOf m of
               Inl p \<Rightarrow> (waited @ [LogInfo StartATx], Panicked p)
             | Inr destMessage \<Rightarrow>
                 (waited @ [LogInfo StartATx, Spawn],
                  Returned (True, AList.update destMessage True current))))"

subsection \<open>The goroutine of ResolveMessage\<close>

definition votedSleep :: "writer \<Rightarrow> Duration" where
  \<comment> \<open>\<open>RoundInterval * time.Duration(w.relayer.totalRelayers) / 2\<close> in int64\<close>
  "votedSleep w = int64 (RoundInterval * sint (totalRelayers w)) sdiv 2"

definition cleanup :: "Message \<Rightarrow> MultiSignTx \<Rightarrow> event list \<times> unit outcome" where
  \<comment> \<open>the two \<open>delete\<close> statements and the \<open>break\<close>\<close>
  "cleanup m currentTx =
     (case destOf m of
        Inl p \<Rightarrow> ([DeleteMsTx currentTx], Panicked p)
      | Inr dm \<Rightarrow> ([DeleteMsTx currentTx, DeleteMessage dm], Returned ()))"

fun retryLoop :: "config \<Rightarrow> lib \<Rightarrow> writer \<Rightarrow> Message \<Rightarrow> int \<Rightarrow> redeem_env list
     \<Rightarrow> event list \<times> unit outcome" where
  "retryLoop k L w m retryTimes envs =
     (let r = retryTimes - 1;
          warned = (if r < BlockRetryLimit k sdiv 2 then [LogWarn MaybeAProblem] else [])
      in if r = 0 then (warned @ [LogError RedeemTxTryTooManyTimes], Returned ())
         else
           (case envs of
              [] \<Rightarrow> (warned, Waiting)
            | env # rest \<Rightarrow>
                (case redeemTx k L w m env of
                   (w', evs, Panicked p) \<Rightarrow> (warned @ evs, Panicked p)
                 | (w', evs, Waiting) \<Rightarrow> (warned @ evs, Waiting)
                 | (w', evs, Returned (isFinished, currentTx)) \<Rightarrow>
                     if isFinished then
                       if currentTx = AmountError k then
                         prepend (warned @ evs @ [LogError MultiSigExtrinsicError])
                           (cleanup m currentTx)
                       else
                         (let slept = (if currentTx = YesVoted k then [Sleep (votedSleep w')]
                                       else [])
                          in if currentTx \<noteq> YesVoted k \<and> currentTx \<noteq> NotExecuted k
                                \<and> currentTx \<noteq> AmountError k
                             then prepend (warned @ evs @ slept
                                             @ [LogInfo MultiSigExtrinsicExecuted])
                                    (cleanup m currentTx)
                             else prepend (warned @ evs @ slept)
                                    (retryLoop k L w' m r rest))
                     else prepend (warned @ evs) (retryLoop k L w' m r rest))))"

definition ResolveMessage_go :: "config \<Rightarrow> lib \<Rightarrow> writer \<Rightarrow> Message \<Rightarrow> redeem_env list
     \<Rightarrow> event list \<times> unit outcome" where
  \<comment> \<open>the function literal of lines 99 to 173, with its deferred log line\<close>
  "ResolveMessage_go k L w m envs =
     (case retryLoop k L w m (BlockRetryLimit k) envs of
        (evs, Returned u) \<Rightarrow>
          (evs @ [LogInfo FinishARedeemTx, LogInfo RelayerFinishTheTx], Returned ())
      | (evs, Panicked p) \<Rightarrow> (evs @ [LogInfo RelayerFinishTheTx], Panicked p)
      | (evs, Waiting) \<Rightarrow> (evs, Waiting))"

subsection \<open>A concrete relayer, for evaluating the functions\<close>

text \<open>
  An instance of the library functions: lower-case hexadecimal without a prefix, and
  account ids of 32 bytes, padded with zeros. The constants take the values of the
  scenarios of the specification (fixed fee 1000, fee rate 1000, three relayers).
\<close>

definition hexDigit :: "nat \<Rightarrow> char" where
  "hexDigit n = (if n < 10 then char_of (48 + n) else char_of (87 + n))"

definition hexOfByte :: "8 word \<Rightarrow> string" where
  "hexOfByte b = [hexDigit (unat b div 16), hexDigit (unat b mod 16)]"

definition NewAccountID :: "bytes \<Rightarrow> bytes" where
  "NewAccountID b = take 32 (b @ replicate 32 0)"

definition hexValue :: "char \<Rightarrow> nat option" where
  "hexValue c =
     (let n = of_char c :: nat
      in if 48 \<le> n \<and> n \<le> 57 then Some (n - 48)
         else if 97 \<le> n \<and> n \<le> 102 then Some (n - 87)
         else if 65 \<le> n \<and> n \<le> 70 then Some (n - 55)
         else None)"

fun hexDecode :: "string \<Rightarrow> bytes option" where
  "hexDecode [] = Some []"
| "hexDecode [c] = None"
| "hexDecode (c # d # rest) =
     (case (hexValue c, hexValue d, hexDecode rest) of
        (Some hi, Some lo, Some bs) \<Rightarrow> Some (of_nat (hi * 16 + lo) # bs)
      | _ \<Rightarrow> None)"

definition exLib :: lib where
  "exLib = \<lparr>BytesToHex = (\<lambda>bs. concat (map hexOfByte bs)),
            NewAddressFromHexAccountID =
              (\<lambda>s. case hexDecode s of None \<Rightarrow> Address False (replicate 32 0)
                    | Some b \<Rightarrow> Address True (NewAccountID b)),
            NewAddressFromAccountID = (\<lambda>b. Address True (NewAccountID b))\<rparr>"

definition exConfig :: config where
  "exConfig = \<lparr>Polkadot = 1, Kusama = 2, ChainXBTC = 3, ChainXPCX = 4,
     FixedDOTFee = 1000, FixedKSMFee = 1000, FeeRate = 1000, BlockRetryLimit = 20, XBTC = 1,
     YesVoted = \<lparr>BlockNumber = - 2, MultiSignTxId = 0\<rparr>,
     NotExecuted = \<lparr>BlockNumber = - 1, MultiSignTxId = 0\<rparr>,
     AmountError = \<lparr>BlockNumber = - 3, MultiSignTxId = 0\<rparr>\<rparr>"

definition exWriter :: writer where
  "exWriter = \<lparr>meta = [''Balances.transfer_keep_alive'', ''Balances.transfer'',
                       ''XAssets.transfer'', ''Multisig.as_multi''],
     chainId = 1, currentRelayer = 0, totalRelayers = 3, PublicKey = [7],
     multiSignThreshold = 2, otherSignatories = [[8], [9]], maxWeight = 5\<rparr>"

definition exMsg :: "ChainId \<Rightarrow> bytes \<Rightarrow> Message" where
  \<comment> \<open>deposit 6 for the account \<open>[1, 2]\<close>: the destination and the amount vary\<close>
  "exMsg dest amountBytes =
     \<lparr>Source = 9, Destination = dest, DepositNonce = 6,
      Payload = [PBytes amountBytes, PBytes [1, 2]]\<rparr>"

definition exRecipientHex :: string where
  "exRecipientHex = ''0102000000000000000000000000000000000000000000000000000000000000''"

definition okAttempt :: attempt where
  "okAttempt = \<lparr>metadataOk = True, blockHashOk = True, runtimeVersionOk = True,
     storageKeyOk = True, storageOk = True, signOk = True, submitOk = True\<rparr>"

definition noMetadata :: attempt where
  "noMetadata = okAttempt\<lparr>metadataOk := False\<rparr>"

definition headerAt :: "32 word \<Rightarrow> round_obs" where
  "headerAt n = \<lparr>finalizedHeadErr = False, finalizedHeader = Some n, headerErr = False\<rparr>"

definition exEnv :: "MultiSigAsMulti list \<Rightarrow> redeem_env" where
  \<comment> \<open>finalized heights 7 and then 9; with three relayers, 9 is the turn of relayer 0 for deposit 6\<close>
  "exEnv table =
     \<lparr>metaLatest = None, rounds = [headerAt 7, headerAt 9], msTxAsMulti = table,
      submitEnv = \<lparr>newApiOk = True, attempts = [okAttempt]\<rparr>\<rparr>"

definition dot2000 :: bytes where
  \<comment> \<open>200 000 000 000 wrapped units: 2000 DOT units\<close>
  "dot2000 = [0x2E, 0x90, 0xED, 0xD0, 0x00]"

definition dot1001 :: bytes where
  \<comment> \<open>100 100 000 000 wrapped units: 1001 DOT units\<close>
  "dot1001 = [0x17, 0x4E, 0x6C, 0xC9, 0x00]"

subsection \<open>The conditions of the specification\<close>

definition processRound :: "writer \<Rightarrow> Message \<Rightarrow> 64 word" where
  \<comment> \<open>\<open>(currentRelayer + deposit_nonce) mod totalRelayers\<close>, in uint64 as line 340 computes it\<close>
  "processRound w m = (currentRelayer w + DepositNonce m) mod totalRelayers w"

definition heightTurn :: "writer \<Rightarrow> Message \<Rightarrow> 32 word \<Rightarrow> bool" where
  \<comment> \<open>the finalized block height modulo the number of relayers equals \<open>processRound\<close>\<close>
  "heightTurn w m n = (uint n mod uint (totalRelayers w) = uint (processRound w m))"

definition matchesMs :: "string \<Rightarrow> int \<Rightarrow> MultiSigAsMulti \<Rightarrow> bool" where
  "matchesMs destAddress actualAmount ms =
     (msDestAddress ms = destAddress \<and> msDestAmount ms = big_String actualAmount)"

definition repeatsIn :: "Message \<Rightarrow> bytes \<Rightarrow> bytes \<Rightarrow> messages \<Rightarrow> bool" where
  \<comment> \<open>another deposit with the same amount for the same recipient is in flight\<close>
  "repeatsIn m amountBytes recipient msgs =
     list_ex (\<lambda>entry. destDepositNonce (fst entry) \<noteq> DepositNonce m
                       \<and> DestAmount (fst entry) = amountBytes
                       \<and> DestAddress (fst entry) = recipient) msgs"

subsection \<open>Sample calls, records and observations\<close>

definition exTransfer :: "int \<Rightarrow> Call" where
  "exTransfer actual =
     Call ''Balances.transfer_keep_alive'' [ArgMultiAddress [1, 2], ArgUCompact actual]"

definition exMultisig :: "timepoint \<Rightarrow> Call \<Rightarrow> 64 word \<Rightarrow> Call" where
  "exMultisig tp inner weight =
     Call ''Multisig.as_multi''
       [ArgU16 2, ArgAccountIDs [[8], [9]], ArgTimePoint tp, ArgEncodedCall inner,
        ArgBool False, ArgWeight weight]"

definition exSelfHex :: string where
  "exSelfHex = ''0700000000000000000000000000000000000000000000000000000000000000''"


definition exPeer9Hex :: string where
  "exPeer9Hex = ''0900000000000000000000000000000000000000000000000000000000000000''"

definition exRecord :: "int \<Rightarrow> bool \<Rightarrow> string list list \<Rightarrow> MultiSigAsMulti" where
  \<comment> \<open>a record of the listener for 998 units to the account \<open>[1, 2]\<close>, first seen in the given block\<close>
  "exRecord block executed others =
     \<lparr>OriginMsTx = \<lparr>BlockNumber = block, MultiSignTxId = 1\<rparr>, Executed = executed,
      msDestAddress = exRecipientHex, msDestAmount = ''998'', Others = others\<rparr>"

definition exOtherRecord :: MultiSigAsMulti where
  \<comment> \<open>a record for another amount to the same account\<close>
  "exOtherRecord = (exRecord 20 False [])\<lparr>msDestAmount := ''5''\<rparr>"

definition exApproved :: MultiSigAsMulti where
  \<comment> \<open>approved once, by the relayer with key \<open>[8]\<close>: its other signatories are this relayer and \<open>[9]\<close>\<close>
  "exApproved = exRecord 40 False [[exSelfHex, exPeer9Hex]]"


definition exConfig2 :: config where
  \<comment> \<open>the constants of \<open>exConfig\<close> with a retry limit of two\<close>
  "exConfig2 = exConfig\<lparr>BlockRetryLimit := 2\<rparr>"

definition exConfigLowFee :: config where
  \<comment> \<open>the constants of \<open>exConfig\<close> with a fixed DOT fee below the fee rate\<close>
  "exConfigLowFee = exConfig\<lparr>FixedDOTFee := 500\<rparr>"

definition dot500 :: bytes where
  \<comment> \<open>50 000 000 000 wrapped units: 500 DOT units\<close>
  "dot500 = [0x0B, 0xA4, 0x3B, 0x74, 0x00]"

definition noHeader :: round_obs where
  \<comment> \<open>both RPCs of \<open>getRound\<close> fail: errors, and a nil header\<close>
  "noHeader = \<lparr>finalizedHeadErr = True, finalizedHeader = None, headerErr = True\<rparr>"

definition staleHeader :: round_obs where
  \<comment> \<open>\<open>GetFinalizedHead\<close> fails and \<open>GetHeader\<close> still answers, with block 9\<close>
  "staleHeader = \<lparr>finalizedHeadErr = True, finalizedHeader = Some 9, headerErr = False\<rparr>"

definition exPcxTransfer :: "int \<Rightarrow> Call" where
  "exPcxTransfer actual =
     Call ''Balances.transfer_keep_alive''
       [ArgU8 255, ArgAddress (Address True (NewAccountID [1, 2])), ArgUCompact actual]"

definition exInFlight :: messages where
  \<comment> \<open>deposit 5 is in flight: the same amount for the same account as \<open>exMsg dest dot2000\<close>\<close>
  "exInFlight =
     [(\<lparr>destDepositNonce = 5, DestAddress = [1, 2], DestAmount = dot2000\<rparr>, True)]"

section \<open>Properties\<close>

declare roundLoop.simps(2) [simp del]
declare submitLoop.simps(2) [simp del]
declare checkRepeat.simps [simp del]
declare retryLoop.simps [simp del]
declare digitsOf.simps [simp del]

subsection \<open>Amounts and the transfer call\<close>

lemma foldl_bytes_nonneg:
  "0 \<le> acc \<Longrightarrow> 0 \<le> foldl (\<lambda>acc b. acc * 256 + uint (b :: 8 word)) acc bs"
  by (induction bs arbitrary: acc) simp_all

lemma big_SetBytes_nonneg: "0 \<le> big_SetBytes bs"
  by (simp add: big_SetBytes_def foldl_bytes_nonneg)

lemma feeTransfer_eq:
  assumes "0 < unit" "0 < rate"
  shows "feeTransfer md tokenX tokenY amount unit fixedFee rate negMsg recipient destAddress =
      (let received = amount div unit; fee = fixedFee + received div rate;
           actual = received - fee;
           logged = [CrossChainTx tokenX tokenY received fee actual]
       in if actual < 0 then (logged @ [LogError negMsg], BuildAmountError)
          else (logged @ fst (newCallOrLog md BalancesTransferKeepAliveMethod
                                 [ArgMultiAddress recipient, ArgUCompact actual]
                                 NewBalancesTransferKeepAliveCallError),
                Built (snd (newCallOrLog md BalancesTransferKeepAliveMethod
                                 [ArgMultiAddress recipient, ArgUCompact actual]
                                 NewBalancesTransferKeepAliveCallError)) actual destAddress))"
  using assms by (simp add: feeTransfer_def big_Div_def Let_def split: prod.split)

text \<open>
  C2. For a Polkadot-destination message whose wrapped amount gives at least
  \<open>FixedDOTFee\<close> units (\<open>wrapped / 10^8 \<ge> FixedDOTFee\<close>), \<open>redeemTx\<close> computes
  \<open>received = wrapped / 10^8\<close>, \<open>fee = FixedDOTFee + received / FeeRate\<close> and
  \<open>actual = received - fee\<close>, so that \<open>actual + fee = wrapped / 10^8\<close>. These are the
  three amounts of the first line \<open>redeemTx\<close> logs, and \<open>actual\<close> is the amount of the call
  it builds. \<open>FeeRate\<close> is a constant declared outside writer.go; it is a positive rate.
\<close>

theorem redeemTx_polkadot_amounts:
  assumes dest: "Destination m = Polkadot k"
    and p0: "payloadBytes m 0 = Inr wrappedBytes"
    and p1: "payloadBytes m 1 = Inr recipient"
    and rate: "0 < FeeRate k"
    and enough: "FixedDOTFee k \<le> big_SetBytes wrappedBytes div 10 ^ 8"
  shows "let received = big_SetBytes wrappedBytes div 10 ^ 8;
             fee = FixedDOTFee k + received div FeeRate k;
             actual = received - fee
         in actual + fee = big_SetBytes wrappedBytes div 10 ^ 8
          \<and> (\<exists>rest. fst (snd (redeemTx k L w m env))
                = CrossChainTx ''BDOT'' ''DOT'' received fee actual # rest)
          \<and> (0 \<le> actual \<longrightarrow>
               (\<exists>errs c. buildTransfer k L w m
                  = (CrossChainTx ''BDOT'' ''DOT'' received fee actual # errs,
                     Built c actual
                       (BytesToHex L (AsAccountID (NewAddressFromAccountID L recipient))))))"
proof -
  have ft: "\<And>w'. buildTransfer k L w' m =
       feeTransfer (meta w') ''BDOT'' ''DOT'' (big_SetBytes wrappedBytes) oneDOT (FixedDOTFee k)
         (FeeRate k) RedeemANegAmount recipient
         (BytesToHex L (AsAccountID (NewAddressFromAccountID L recipient)))"
    using dest p0 p1 by (simp add: buildTransfer_def Let_def)
  show ?thesis
    unfolding Let_def redeemTx_def ft
    by (simp add: feeTransfer_eq rate oneDOT_def Let_def deferred_def prepend_def
        split: outcome.split prod.split)
qed

theorem redeemTx_polkadot_amounts_witness:
  "Destination (exMsg 1 dot2000) = Polkadot exConfig
   \<and> payloadBytes (exMsg 1 dot2000) 0 = Inr dot2000
   \<and> payloadBytes (exMsg 1 dot2000) 1 = Inr [1, 2]
   \<and> 0 < FeeRate exConfig
   \<and> FixedDOTFee exConfig \<le> big_SetBytes dot2000 div 10 ^ 8
   \<and> (\<exists>rest. fst (snd (redeemTx exConfig exLib exWriter (exMsg 1 dot2000) (exEnv [])))
         = CrossChainTx ''BDOT'' ''DOT'' 2000 1002 998 # rest)"
proof -
  have v: "big_SetBytes dot2000 = 200000000000"
    by (simp add: big_SetBytes_def dot2000_def)
  have d: "Destination (exMsg 1 dot2000) = Polkadot exConfig"
    by (simp add: exMsg_def exConfig_def)
  have p0: "payloadBytes (exMsg 1 dot2000) 0 = Inr dot2000"
    by (simp add: payloadBytes_def exMsg_def)
  have p1: "payloadBytes (exMsg 1 dot2000) 1 = Inr [1, 2]"
    by (simp add: payloadBytes_def exMsg_def)
  have r: "0 < FeeRate exConfig" by (simp add: exConfig_def)
  have e: "FixedDOTFee exConfig \<le> big_SetBytes dot2000 div 10 ^ 8"
    by (simp add: v exConfig_def)
  have c: "FixedDOTFee exConfig = 1000" "FeeRate exConfig = 1000"
    by (simp_all add: exConfig_def)
  show ?thesis
    using redeemTx_polkadot_amounts [OF d p0 p1 r e, of exLib exWriter "exEnv []"] d p0 p1 r e
    by (simp add: Let_def v c)
qed

subsection \<open>The round loop\<close>

lemma sint_pos_uint:
  fixes x :: "64 word"
  assumes "0 < sint x"
  shows "sint x = uint x"
proof -
  have "sint x < 2 ^ 64" using sint_lt [of x] by simp
  then have "take_bit 64 (sint x) = sint x"
    using assms by (simp add: take_bit_int_eq_self)
  then show ?thesis using uint_sint [of x] by simp
qed

lemma word_of_int_eq_iff_small:
  fixes p :: "64 word"
  assumes "0 \<le> r" "r < 2 ^ 64"
  shows "(word_of_int r = p) = (r = uint p)"
proof
  assume "word_of_int r = p"
  then show "r = uint p" using word_of_int_inverse [of r p] assms by simp
next
  assume "r = uint p"
  then show "word_of_int r = p" by (simp add: word_of_int_uint)
qed

lemma getRound_None: "finalizedHeader obs = None \<Longrightarrow> snd (getRound w obs) = Inl NilDereference"
  by (simp add: getRound_def Let_def)

lemma getRound_Some:
  "finalizedHeader obs = Some n \<Longrightarrow> totalRelayers w \<noteq> 0 \<Longrightarrow>
   snd (getRound w obs) = Inr \<lparr>blockHeight = uint n, blockRound = uint n mod \<bar>sint (totalRelayers w)\<bar>\<rparr>"
  by (simp add: getRound_def Let_def big_Mod_def signed_eq_0_iff)

lemma getRound_zero:
  "finalizedHeader obs = Some n \<Longrightarrow> totalRelayers w = 0 \<Longrightarrow>
   snd (getRound w obs) = Inl DivideByZero"
  by (simp add: getRound_def Let_def big_Mod_def)

lemma getRound_no_submit: "SubmitTxCalled c \<notin> set (fst (getRound w obs))"
  by (simp add: getRound_def Let_def split: option.split)

lemma blockRound_turn:
  assumes "0 < sint (totalRelayers w)"
  shows "((word_of_int (uint (n :: 32 word) mod \<bar>sint (totalRelayers w)\<bar>) :: 64 word) = processRound w m)
         = heightTurn w m n"
proof -
  have eq: "\<bar>sint (totalRelayers w)\<bar> = uint (totalRelayers w)"
    using assms sint_pos_uint [of "totalRelayers w"] by simp
  have pos: "0 < uint (totalRelayers w)" using assms eq by simp
  have lo: "0 \<le> uint n mod uint (totalRelayers w)" using pos by simp
  have "uint n mod uint (totalRelayers w) < uint (totalRelayers w)"
    using pos by simp
  also have "\<dots> < 2 ^ 64" using uint_lt2p [of "totalRelayers w"] by simp
  finally have hi: "uint n mod uint (totalRelayers w) < 2 ^ 64" .
  show ?thesis
    unfolding eq heightTurn_def by (rule word_of_int_eq_iff_small [OF lo hi])
qed

lemma roundLoop_turn:
  assumes "0 < sint (totalRelayers w)" "finalizedHeader obs = Some n" "heightTurn w m n"
  shows "roundLoop k L w m c a d table env (obs # rest)
       = prepend (fst (getRound w obs)) (onTurn k L w m c a d table env)"
proof -
  have nz: "totalRelayers w \<noteq> 0" using assms(1) by auto
  obtain logged where g: "getRound w obs = (logged, Inr \<lparr>blockHeight = uint n, blockRound = uint n mod \<bar>sint (totalRelayers w)\<bar>\<rparr>)"
    using getRound_Some [OF assms(2) nz, of ] by (cases "getRound w obs") auto
  show ?thesis
    using blockRound_turn [OF assms(1), of n m] assms(3) nz
    by (simp add: g processRound_def roundLoop.simps(2))
qed

lemma roundLoop_wait:
  assumes "0 < sint (totalRelayers w)" "finalizedHeader obs = Some n" "\<not> heightTurn w m n"
  shows "roundLoop k L w m c a d table env (obs # rest)
       = prepend (fst (getRound w obs) @ [Sleep RoundInterval])
           (roundLoop k L w m c a d table env rest)"
proof -
  have nz: "totalRelayers w \<noteq> 0" using assms(1) by auto
  obtain logged where g: "getRound w obs = (logged, Inr \<lparr>blockHeight = uint n, blockRound = uint n mod \<bar>sint (totalRelayers w)\<bar>\<rparr>)"
    using getRound_Some [OF assms(2) nz, of ] by (cases "getRound w obs") auto
  show ?thesis
    using blockRound_turn [OF assms(1), of n m] assms(3) nz
    by (simp add: g processRound_def roundLoop.simps(2))
qed

lemma roundLoop_panic:
  assumes "finalizedHeader obs = None" "totalRelayers w \<noteq> 0"
  shows "roundLoop k L w m c a d table env (obs # rest)
       = (fst (getRound w obs), Panicked NilDereference)"
  using getRound_None [OF assms(1), of w] assms(2)
  by (cases "getRound w obs") (auto simp: roundLoop.simps(2))

lemma roundLoop_submit_only_on_turn:
  assumes "0 < sint (totalRelayers w)"
    and "SubmitTxCalled mc \<in> set (fst (roundLoop k L w m c a d table env obss))"
  shows "\<exists>skipped obs later.
           obss = skipped @ obs # later
         \<and> (\<forall>ob \<in> set skipped. \<exists>n. finalizedHeader ob = Some n \<and> \<not> heightTurn w m n)
         \<and> (\<exists>n. finalizedHeader obs = Some n \<and> heightTurn w m n)"
  using assms(2)
proof (induction obss)
  case Nil
  then show ?case by simp
next
  case (Cons obs rest)
  show ?case
  proof (cases "finalizedHeader obs")
    case None
    have nz: "totalRelayers w \<noteq> 0" using assms(1) by auto
    from Cons.prems show ?thesis
      by (simp add: roundLoop_panic [OF None nz] getRound_no_submit)
  next
    case (Some n)
    show ?thesis
    proof (cases "heightTurn w m n")
      case True
      have "obs # rest = [] @ obs # rest \<and> (\<forall>ob \<in> set []. \<exists>n. finalizedHeader ob = Some n \<and> \<not> heightTurn w m n)
           \<and> (\<exists>n. finalizedHeader obs = Some n \<and> heightTurn w m n)"
        using Some True by simp
      then show ?thesis by blast
    next
      case False
      from Cons.prems have "SubmitTxCalled mc \<in> set (fst (roundLoop k L w m c a d table env rest))"
        by (simp add: roundLoop_wait [OF assms(1) Some False] prepend_def getRound_no_submit)
      from Cons.IH [OF this] obtain skipped ob later where
        r: "rest = skipped @ ob # later"
        and s: "\<forall>ob \<in> set skipped. \<exists>n. finalizedHeader ob = Some n \<and> \<not> heightTurn w m n"
        and t: "\<exists>n. finalizedHeader ob = Some n \<and> heightTurn w m n"
        by blast
      have "obs # rest = (obs # skipped) @ ob # later" using r by simp
      moreover have "\<forall>ob \<in> set (obs # skipped). \<exists>n. finalizedHeader ob = Some n \<and> \<not> heightTurn w m n"
        using s Some False by simp
      ultimately show ?thesis using t by blast
    qed
  qed
qed

lemma newCallOrLog_no_submit:
  "newCallOrLog md name as msg = (es, c) \<Longrightarrow> SubmitTxCalled mc \<notin> set es"
  by (auto simp: newCallOrLog_def split: option.splits)

lemma feeTransfer_no_submit:
  "SubmitTxCalled mc \<notin> set (fst (feeTransfer md tx ty amount unit fixedFee rate negMsg rc d))"
  by (auto simp: feeTransfer_def Let_def split: option.split prod.split
      dest: newCallOrLog_no_submit)

lemma buildTransfer_no_submit: "SubmitTxCalled mc \<notin> set (fst (buildTransfer k L w m))"
  by (auto simp: buildTransfer_def Let_def feeTransfer_no_submit
      split: sum.split option.split prod.split dest: newCallOrLog_no_submit)

lemma UpdateMetadate_fields [simp]:
  "totalRelayers (UpdateMetadate w x) = totalRelayers w"
  "currentRelayer (UpdateMetadate w x) = currentRelayer w"
  "chainId (UpdateMetadate w x) = chainId w"
  "PublicKey (UpdateMetadate w x) = PublicKey w"
  "maxWeight (UpdateMetadate w x) = maxWeight w"
  by (simp_all add: UpdateMetadate_def split: option.split)

lemma heightTurn_UpdateMetadate [simp]:
  "heightTurn (UpdateMetadate w x) m n = heightTurn w m n"
  by (simp add: heightTurn_def processRound_def)

lemma getRound_UpdateMetadate [simp]: "getRound (UpdateMetadate w x) obs = getRound w obs"
  by (simp only: getRound_def UpdateMetadate_fields)

lemma deferred_set: "set (fst (deferred r)) \<subseteq> set (fst r) \<union> {Sleep RoundInterval}"
  by (auto simp: deferred_def split: outcome.split)

lemma redeemTx_submit_in_roundLoop:
  assumes "SubmitTxCalled mc \<in> set (fst (snd (redeemTx k L w m env)))"
  shows "\<exists>c a d. SubmitTxCalled mc
           \<in> set (fst (roundLoop k L (UpdateMetadate w (metaLatest env)) m c a d
                         (msTxAsMulti env) (submitEnv env) (rounds env)))"
proof -
  let ?w = "UpdateMetadate w (metaLatest env)"
  obtain logged b where bt: "buildTransfer k L ?w m = (logged, b)"
    by (cases "buildTransfer k L ?w m")
  have nl: "SubmitTxCalled mc \<notin> set logged"
    using buildTransfer_no_submit [of mc k L ?w m] bt by simp
  show ?thesis
  proof (cases b)
    case (BuildPanic p)
    with assms bt nl show ?thesis by (simp add: redeemTx_def Let_def deferred_def)
  next
    case BuildAmountError
    with assms bt nl show ?thesis by (simp add: redeemTx_def Let_def deferred_def)
  next
    case (Built c a d)
    let ?r = "roundLoop k L ?w m c a d (msTxAsMulti env) (submitEnv env) (rounds env)"
    have "SubmitTxCalled mc \<in> set (fst (deferred (prepend logged ?r)))"
      using assms bt Built by (simp add: redeemTx_def Let_def)
    then have "SubmitTxCalled mc \<in> set (fst (prepend logged ?r))"
      using deferred_set [of "prepend logged ?r"] by auto
    then have "SubmitTxCalled mc \<in> set (fst ?r)" using nl by (simp add: prepend_def)
    then show ?thesis by blast
  qed
qed

text \<open>
  C1. \<open>redeemTx\<close> calls \<open>submitTx\<close> only in a round whose finalized block height
  modulo \<open>totalRelayers\<close> equals \<open>(currentRelayer + deposit_nonce) mod totalRelayers\<close>:
  a call of \<open>submitTx\<close> in the trace means that the rounds seen were first rounds where
  the equality fails and then one where it holds. In a round where the equality fails the
  loop sleeps one \<open>RoundInterval\<close>, submits nothing and goes on to the next round.
  The number of relayers is positive as the int64 that \<open>getRound\<close> converts it to.
\<close>

theorem redeemTx_submits_on_turn_only:
  assumes pos: "0 < sint (totalRelayers w)"
  shows "(SubmitTxCalled mc \<in> set (fst (snd (redeemTx k L w m env))) \<longrightarrow>
            (\<exists>skipped obs later.
                rounds env = skipped @ obs # later
              \<and> (\<forall>ob \<in> set skipped. \<exists>n. finalizedHeader ob = Some n \<and> \<not> heightTurn w m n)
              \<and> (\<exists>n. finalizedHeader obs = Some n \<and> heightTurn w m n)))
       \<and> (finalizedHeader ob = Some n \<and> \<not> heightTurn w m n \<longrightarrow>
             roundLoop k L w m c a d table senv (ob # rest)
               = prepend (fst (getRound w ob) @ [Sleep RoundInterval])
                   (roundLoop k L w m c a d table senv rest)
           \<and> SubmitTxCalled mc \<notin> set (fst (getRound w ob) @ [Sleep RoundInterval]))"
proof (intro conjI impI)
  assume "SubmitTxCalled mc \<in> set (fst (snd (redeemTx k L w m env)))"
  from redeemTx_submit_in_roundLoop [OF this] obtain c' a' d' where
    "SubmitTxCalled mc \<in> set (fst (roundLoop k L (UpdateMetadate w (metaLatest env)) m c' a' d'
                         (msTxAsMulti env) (submitEnv env) (rounds env)))"
    by blast
  moreover have "0 < sint (totalRelayers (UpdateMetadate w (metaLatest env)))"
    using pos by simp
  ultimately show "\<exists>skipped obs later.
                rounds env = skipped @ obs # later
              \<and> (\<forall>ob \<in> set skipped. \<exists>n. finalizedHeader ob = Some n \<and> \<not> heightTurn w m n)
              \<and> (\<exists>n. finalizedHeader obs = Some n \<and> heightTurn w m n)"
    using roundLoop_submit_only_on_turn
      [of "UpdateMetadate w (metaLatest env)" mc k L m c' a' d' "msTxAsMulti env" "submitEnv env"
          "rounds env"]
    by simp
next
  assume h: "finalizedHeader ob = Some n \<and> \<not> heightTurn w m n"
  then show "roundLoop k L w m c a d table senv (ob # rest)
               = prepend (fst (getRound w ob) @ [Sleep RoundInterval])
                   (roundLoop k L w m c a d table senv rest)"
    using roundLoop_wait [OF pos, of ob n m] by simp
next
  show "SubmitTxCalled mc \<notin> set (fst (getRound w ob) @ [Sleep RoundInterval])"
    by (simp add: getRound_no_submit)
qed

theorem redeemTx_submits_on_turn_only_witness:
  "0 < sint (totalRelayers exWriter)
   \<and> SubmitTxCalled (exMultisig EmptyBytes (exTransfer 998) 0)
       \<in> set (fst (snd (redeemTx exConfig exLib exWriter (exMsg 1 dot2000) (exEnv []))))
   \<and> rounds (exEnv []) = [headerAt 7] @ headerAt 9 # []
   \<and> finalizedHeader (headerAt 7) = Some 7 \<and> \<not> heightTurn exWriter (exMsg 1 dot2000) 7
   \<and> finalizedHeader (headerAt 9) = Some 9 \<and> heightTurn exWriter (exMsg 1 dot2000) 9
   \<and> roundLoop exConfig exLib exWriter (exMsg 1 dot2000) (exTransfer 998) 998 exRecipientHex []
        (submitEnv (exEnv [])) (headerAt 7 # [headerAt 9])
       = prepend (fst (getRound exWriter (headerAt 7)) @ [Sleep RoundInterval])
           (roundLoop exConfig exLib exWriter (exMsg 1 dot2000) (exTransfer 998) 998
              exRecipientHex [] (submitEnv (exEnv [])) [headerAt 9])"
proof -
  have pos: "0 < sint (totalRelayers exWriter)" by (simp add: exWriter_def)
  have sub: "SubmitTxCalled (exMultisig EmptyBytes (exTransfer 998) 0)
       \<in> set (fst (snd (redeemTx exConfig exLib exWriter (exMsg 1 dot2000) (exEnv []))))"
    by code_simp
  have r: "rounds (exEnv []) = [headerAt 7] @ headerAt 9 # []" by (simp add: exEnv_def)
  have h7: "finalizedHeader (headerAt 7) = Some 7" by (simp add: headerAt_def)
  have h9: "finalizedHeader (headerAt 9) = Some 9" by (simp add: headerAt_def)
  have t7: "\<not> heightTurn exWriter (exMsg 1 dot2000) 7"
    by (simp add: heightTurn_def processRound_def exWriter_def exMsg_def)
  have t9: "heightTurn exWriter (exMsg 1 dot2000) 9"
    by (simp add: heightTurn_def processRound_def exWriter_def exMsg_def)
  show ?thesis
    using redeemTx_submits_on_turn_only [OF pos, where ob = "headerAt 7" and n = 7
        and m = "exMsg 1 dot2000" and mc = "exMultisig EmptyBytes (exTransfer 998) 0"
        and k = exConfig and L = exLib and env = "exEnv []" and c = "exTransfer 998"
        and a = 998 and d = exRecipientHex and table = "[]" and senv = "submitEnv (exEnv [])"
        and rest = "[headerAt 9]"]
      pos sub r h7 h9 t7 t9
    by simp
qed

subsection \<open>Executed and voted records\<close>

lemma scanMsTx_skip:
  "\<forall>x \<in> set before. \<not> matchesMs d a x \<Longrightarrow>
   scanMsTx k L w d a (before @ rest) tp mw
     = scanMsTx k L w d a rest (if before = [] then tp else EmptyBytes) mw"
  by (induction before arbitrary: tp) (auto simp: matchesMs_def)

lemma scanMsTx_executed:
  "matchesMs d a ms \<Longrightarrow> Executed ms \<Longrightarrow>
   scanMsTx k L w d a (ms # rest) tp mw = ([], Finished True (OriginMsTx ms))"
  by (simp add: matchesMs_def isFinish_def)

lemma onTurn_executed:
  assumes "\<forall>x \<in> set before. \<not> matchesMs d a x" "matchesMs d a ms" "Executed ms"
  shows "onTurn k L w m c a d (before @ ms # rest) env = ([], Returned (True, OriginMsTx ms))"
proof -
  have "scanMsTx k L w d a (before @ ms # rest) NilTimePoint 0
          = ([], Finished True (OriginMsTx ms))"
    by (simp only: scanMsTx_skip [OF assms(1)] scanMsTx_executed [OF assms(2,3)])
  then show ?thesis by (simp add: onTurn_def)
qed

lemma roundLoop_skip:
  assumes pos: "0 < sint (totalRelayers w)"
    and sk: "\<forall>ob \<in> set skipped. \<exists>n. finalizedHeader ob = Some n \<and> \<not> heightTurn w m n"
  shows "roundLoop k L w m c a d table env (skipped @ rest)
       = prepend (concat (map (\<lambda>ob. fst (getRound w ob) @ [Sleep RoundInterval]) skipped))
           (roundLoop k L w m c a d table env rest)"
  using sk
proof (induction skipped)
  case Nil
  then show ?case by (simp add: prepend_def)
next
  case (Cons ob skipped)
  then obtain n where n: "finalizedHeader ob = Some n" "\<not> heightTurn w m n" by auto
  have "roundLoop k L w m c a d table env ((ob # skipped) @ rest)
      = prepend (fst (getRound w ob) @ [Sleep RoundInterval])
          (roundLoop k L w m c a d table env (skipped @ rest))"
    using roundLoop_wait [OF pos n] by simp
  also have "\<dots> = prepend (concat (map (\<lambda>ob. fst (getRound w ob) @ [Sleep RoundInterval]) (ob # skipped)))
           (roundLoop k L w m c a d table env rest)"
    using Cons by (simp add: prepend_def)
  finally show ?case .
qed

lemma skipped_no_submit:
  "SubmitTxCalled mc \<notin> set (concat (map (\<lambda>ob. fst (getRound w ob) @ [Sleep RoundInterval]) skipped))"
  by (induction skipped) (simp_all add: getRound_no_submit)

lemma roundLoop_executed:
  assumes pos: "0 < sint (totalRelayers w)"
    and sk: "\<forall>ob \<in> set skipped. \<exists>n. finalizedHeader ob = Some n \<and> \<not> heightTurn w m n"
    and turn: "finalizedHeader obs = Some n" "heightTurn w m n"
    and tb: "\<forall>x \<in> set before. \<not> matchesMs d a x" "matchesMs d a ms" "Executed ms"
  shows "snd (roundLoop k L w m c a d (before @ ms # after) env (skipped @ obs # later))
           = Returned (True, OriginMsTx ms)"
    and "SubmitTxCalled mc
           \<notin> set (fst (roundLoop k L w m c a d (before @ ms # after) env (skipped @ obs # later)))"
  using roundLoop_skip [OF pos sk, of k L c a d "before @ ms # after" env "obs # later"]
    roundLoop_turn [OF pos turn, of k L c a d "before @ ms # after" env later]
    onTurn_executed [OF tb, of k L w m c after env]
    skipped_no_submit [of mc w skipped] getRound_no_submit [of mc w obs]
  by (simp_all add: prepend_def)

lemma buildTransfer_destOf:
  "buildTransfer k L w m = (logged, Built c a d) \<Longrightarrow> \<exists>dm. destOf m = Inr dm"
  by (auto simp: buildTransfer_def destOf_def split: sum.splits)

lemma redeemTx_fst: "fst (redeemTx k L w m env) = UpdateMetadate w (metaLatest env)"
  by (simp add: redeemTx_def Let_def)

lemma redeemTx_built:
  assumes "buildTransfer k L (UpdateMetadate w (metaLatest env)) m = (logged, Built c a d)"
  shows "snd (redeemTx k L w m env)
       = deferred (prepend logged
           (roundLoop k L (UpdateMetadate w (metaLatest env)) m c a d (msTxAsMulti env)
              (submitEnv env) (rounds env)))"
  using assms by (simp add: redeemTx_def Let_def)

lemma deferred_Returned:
  "snd r = Returned x \<Longrightarrow> deferred r = (fst r @ [Sleep RoundInterval], Returned x)"
  by (simp add: deferred_def)

lemma cleanup_Inr:
  "destOf m = Inr dm \<Longrightarrow> cleanup m tx = ([DeleteMsTx tx, DeleteMessage dm], Returned ())"
  by (simp add: cleanup_def)

lemma retryLoop_finished:
  assumes r: "redeemTx k L w m env = (w', evs, Returned (True, tx))"
    and ne: "tx \<noteq> YesVoted k" "tx \<noteq> NotExecuted k"
    and more: "retryTimes - 1 \<noteq> 0"
    and dm: "destOf m = Inr dm"
  shows "snd (retryLoop k L w m retryTimes (env # envs)) = Returned ()"
    and "set (fst (retryLoop k L w m retryTimes (env # envs)))
           \<subseteq> set evs \<union> {LogWarn MaybeAProblem, LogError MultiSigExtrinsicError,
                          LogInfo MultiSigExtrinsicExecuted, DeleteMsTx tx, DeleteMessage dm}"
    and "DeleteMsTx tx \<in> set (fst (retryLoop k L w m retryTimes (env # envs)))"
    and "DeleteMessage dm \<in> set (fst (retryLoop k L w m retryTimes (env # envs)))"
  using r ne more
  by (subst retryLoop.simps; auto simp: Let_def prepend_def cleanup_Inr [OF dm])+

lemma retryLoop_finished_trace:
  assumes r: "redeemTx k L w m env = (w', evs, Returned (True, tx))"
    and ne: "tx \<noteq> YesVoted k" "tx \<noteq> NotExecuted k"
    and more: "retryTimes - 1 \<noteq> 0"
    and dm: "destOf m = Inr dm"
  shows "retryLoop k L w m retryTimes (env # envs)
       = ((if retryTimes - 1 < BlockRetryLimit k sdiv 2 then [LogWarn MaybeAProblem] else [])
            @ evs
            @ [if tx = AmountError k then LogError MultiSigExtrinsicError
               else LogInfo MultiSigExtrinsicExecuted,
               DeleteMsTx tx, DeleteMessage dm],
          Returned ())"
  using r ne more
  by (subst retryLoop.simps) (simp add: Let_def prepend_def cleanup_Inr [OF dm])

text \<open>
  C3, as amended. The scan of \<open>msTxAsMulti\<close> stops at the first record, in the order
  the map iteration visits it, that matches on \<open>(destAddress, destAmount)\<close>. If that
  first matching record has its executed flag set then, on this relayer's turn, \<open>redeemTx\<close>
  returns \<open>true\<close> with the record's \<open>OriginMsTx\<close> (origin block number and extrinsic
  index) and \<open>submitTx\<close> is not called; the goroutine then deletes the record and the
  message and ends, unless the retries are exhausted first or the record's key is one of the
  markers \<open>YesVoted\<close> and \<open>NotExecuted\<close>. Its trace is the trace of \<open>redeemTx\<close>, one
  log line, the deletion of the record from \<open>msTxAsMulti\<close> and the deletion of the
  message's \<open>Dest\<close> from \<open>messages\<close>.
\<close>

theorem redeemTx_executed_first_match:
  assumes built: "buildTransfer k L (UpdateMetadate w (metaLatest env)) m
                    = (logged, Built c actual destAddress)"
    and pos: "0 < sint (totalRelayers w)"
    and rounds: "rounds env = skipped @ obs # later"
    and sk: "\<forall>ob \<in> set skipped. \<exists>n. finalizedHeader ob = Some n \<and> \<not> heightTurn w m n"
    and turn: "finalizedHeader obs = Some n" "heightTurn w m n"
    and table: "msTxAsMulti env = before @ ms # after"
    and first: "\<forall>x \<in> set before. \<not> matchesMs destAddress actual x"
    and hit: "matchesMs destAddress actual ms" "Executed ms"
  shows "snd (snd (redeemTx k L w m env)) = Returned (True, OriginMsTx ms)
       \<and> SubmitTxCalled mc \<notin> set (fst (snd (redeemTx k L w m env)))
       \<and> (retryTimes - 1 \<noteq> 0 \<and> OriginMsTx ms \<noteq> YesVoted k \<and> OriginMsTx ms \<noteq> NotExecuted k \<longrightarrow>
            snd (retryLoop k L w m retryTimes (env # envs)) = Returned ()
          \<and> SubmitTxCalled mc \<notin> set (fst (retryLoop k L w m retryTimes (env # envs)))
          \<and> DeleteMsTx (OriginMsTx ms) \<in> set (fst (retryLoop k L w m retryTimes (env # envs)))
          \<and> (\<exists>dm. destOf m = Inr dm
                \<and> DeleteMessage dm \<in> set (fst (retryLoop k L w m retryTimes (env # envs)))
                \<and> retryLoop k L w m retryTimes (env # envs)
                    = ((if retryTimes - 1 < BlockRetryLimit k sdiv 2
                        then [LogWarn MaybeAProblem] else [])
                         @ fst (snd (redeemTx k L w m env))
                         @ [if OriginMsTx ms = AmountError k
                            then LogError MultiSigExtrinsicError
                            else LogInfo MultiSigExtrinsicExecuted,
                            DeleteMsTx (OriginMsTx ms), DeleteMessage dm],
                       Returned ())))"
proof -
  let ?w = "UpdateMetadate w (metaLatest env)"
  let ?r = "roundLoop k L ?w m c actual destAddress (before @ ms # after) (submitEnv env)
              (skipped @ obs # later)"
  have pos': "0 < sint (totalRelayers ?w)" using pos by simp
  have sk': "\<forall>ob \<in> set skipped. \<exists>n. finalizedHeader ob = Some n \<and> \<not> heightTurn ?w m n"
    using sk by simp
  have turn': "heightTurn ?w m n" using turn(2) by simp
  have res: "snd ?r = Returned (True, OriginMsTx ms)"
    by (rule roundLoop_executed(1) [OF pos' sk' turn(1) turn' first hit])
  have nos: "SubmitTxCalled mc \<notin> set (fst ?r)"
    by (rule roundLoop_executed(2) [OF pos' sk' turn(1) turn' first hit])
  have nol: "SubmitTxCalled mc \<notin> set logged"
    using buildTransfer_no_submit [of mc k L ?w m] built by simp
  have sr: "snd (redeemTx k L w m env) = deferred (prepend logged ?r)"
    using redeemTx_built [OF built] rounds table by simp
  have d: "deferred (prepend logged ?r)
             = (fst (prepend logged ?r) @ [Sleep RoundInterval], Returned (True, OriginMsTx ms))"
    by (rule deferred_Returned) (simp add: prepend_def res)
  have a: "snd (snd (redeemTx k L w m env)) = Returned (True, OriginMsTx ms)"
    by (simp add: sr d)
  have b: "SubmitTxCalled mc \<notin> set (fst (snd (redeemTx k L w m env)))"
    unfolding sr d using nos nol by (simp add: prepend_def)
  have c: "retryTimes - 1 \<noteq> 0 \<and> OriginMsTx ms \<noteq> YesVoted k \<and> OriginMsTx ms \<noteq> NotExecuted k \<longrightarrow>
            snd (retryLoop k L w m retryTimes (env # envs)) = Returned ()
          \<and> SubmitTxCalled mc \<notin> set (fst (retryLoop k L w m retryTimes (env # envs)))
          \<and> DeleteMsTx (OriginMsTx ms) \<in> set (fst (retryLoop k L w m retryTimes (env # envs)))
          \<and> (\<exists>dm. destOf m = Inr dm
                \<and> DeleteMessage dm \<in> set (fst (retryLoop k L w m retryTimes (env # envs)))
                \<and> retryLoop k L w m retryTimes (env # envs)
                    = ((if retryTimes - 1 < BlockRetryLimit k sdiv 2
                        then [LogWarn MaybeAProblem] else [])
                         @ fst (snd (redeemTx k L w m env))
                         @ [if OriginMsTx ms = AmountError k
                            then LogError MultiSigExtrinsicError
                            else LogInfo MultiSigExtrinsicExecuted,
                            DeleteMsTx (OriginMsTx ms), DeleteMessage dm],
                       Returned ()))"
  proof
    assume h: "retryTimes - 1 \<noteq> 0 \<and> OriginMsTx ms \<noteq> YesVoted k \<and> OriginMsTx ms \<noteq> NotExecuted k"
    obtain dm where dm: "destOf m = Inr dm" using buildTransfer_destOf [OF built] by blast
    have full: "redeemTx k L w m env
                  = (?w, fst (snd (redeemTx k L w m env)), Returned (True, OriginMsTx ms))"
      using a redeemTx_fst [of k L w m env] by (cases "redeemTx k L w m env") auto
    from h have h1: "OriginMsTx ms \<noteq> YesVoted k" and h2: "OriginMsTx ms \<noteq> NotExecuted k"
      and h3: "retryTimes - 1 \<noteq> 0" by simp_all
    note tr = retryLoop_finished_trace [OF full h1 h2 h3 dm, of envs]
    have r1: "snd (retryLoop k L w m retryTimes (env # envs)) = Returned ()"
      unfolding tr by simp
    have r2: "SubmitTxCalled mc \<notin> set (fst (retryLoop k L w m retryTimes (env # envs)))"
      unfolding tr using b by simp
    have r3: "DeleteMsTx (OriginMsTx ms) \<in> set (fst (retryLoop k L w m retryTimes (env # envs)))"
      unfolding tr by simp
    have r4: "DeleteMessage dm \<in> set (fst (retryLoop k L w m retryTimes (env # envs)))"
      unfolding tr by simp
    show "snd (retryLoop k L w m retryTimes (env # envs)) = Returned ()
          \<and> SubmitTxCalled mc \<notin> set (fst (retryLoop k L w m retryTimes (env # envs)))
          \<and> DeleteMsTx (OriginMsTx ms) \<in> set (fst (retryLoop k L w m retryTimes (env # envs)))
          \<and> (\<exists>dm. destOf m = Inr dm
                \<and> DeleteMessage dm \<in> set (fst (retryLoop k L w m retryTimes (env # envs)))
                \<and> retryLoop k L w m retryTimes (env # envs)
                    = ((if retryTimes - 1 < BlockRetryLimit k sdiv 2
                        then [LogWarn MaybeAProblem] else [])
                         @ fst (snd (redeemTx k L w m env))
                         @ [if OriginMsTx ms = AmountError k
                            then LogError MultiSigExtrinsicError
                            else LogInfo MultiSigExtrinsicExecuted,
                            DeleteMsTx (OriginMsTx ms), DeleteMessage dm],
                       Returned ()))"
      using r1 r2 r3 r4 dm tr by blast
  qed
  show ?thesis using a b c by blast
qed

theorem redeemTx_executed_first_match_witness:
  "buildTransfer exConfig exLib
     (UpdateMetadate exWriter (metaLatest (exEnv [exOtherRecord, exRecord 30 True []])))
     (exMsg 1 dot2000)
     = ([CrossChainTx ''BDOT'' ''DOT'' 2000 1002 998], Built (exTransfer 998) 998 exRecipientHex)
   \<and> 0 < sint (totalRelayers exWriter)
   \<and> rounds (exEnv [exOtherRecord, exRecord 30 True []]) = [headerAt 7] @ headerAt 9 # []
   \<and> finalizedHeader (headerAt 7) = Some 7 \<and> \<not> heightTurn exWriter (exMsg 1 dot2000) 7
   \<and> finalizedHeader (headerAt 9) = Some 9 \<and> heightTurn exWriter (exMsg 1 dot2000) 9
   \<and> msTxAsMulti (exEnv [exOtherRecord, exRecord 30 True []])
        = [exOtherRecord] @ exRecord 30 True [] # []
   \<and> \<not> matchesMs exRecipientHex 998 exOtherRecord
   \<and> matchesMs exRecipientHex 998 (exRecord 30 True [])
   \<and> Executed (exRecord 30 True [])
   \<and> snd (snd (redeemTx exConfig exLib exWriter (exMsg 1 dot2000)
                  (exEnv [exOtherRecord, exRecord 30 True []])))
        = Returned (True, OriginMsTx (exRecord 30 True []))
   \<and> SubmitTxCalled (exMultisig EmptyBytes (exTransfer 998) 0)
        \<notin> set (fst (snd (redeemTx exConfig exLib exWriter (exMsg 1 dot2000)
                            (exEnv [exOtherRecord, exRecord 30 True []]))))
   \<and> snd (retryLoop exConfig exLib exWriter (exMsg 1 dot2000) 20
             [exEnv [exOtherRecord, exRecord 30 True []]]) = Returned ()
   \<and> DeleteMsTx (OriginMsTx (exRecord 30 True []))
        \<in> set (fst (retryLoop exConfig exLib exWriter (exMsg 1 dot2000) 20
                       [exEnv [exOtherRecord, exRecord 30 True []]]))
   \<and> DeleteMessage \<lparr>destDepositNonce = 6, DestAddress = [1, 2], DestAmount = dot2000\<rparr>
        \<in> set (fst (retryLoop exConfig exLib exWriter (exMsg 1 dot2000) 20
                       [exEnv [exOtherRecord, exRecord 30 True []]]))"
proof -
  let ?env = "exEnv [exOtherRecord, exRecord 30 True []]"
  have dest: "destOf (exMsg 1 dot2000)
                = Inr \<lparr>destDepositNonce = 6, DestAddress = [1, 2], DestAmount = dot2000\<rparr>"
    by (simp add: destOf_def payloadBytes_def exMsg_def)
  have built: "buildTransfer exConfig exLib (UpdateMetadate exWriter (metaLatest ?env))
     (exMsg 1 dot2000)
     = ([CrossChainTx ''BDOT'' ''DOT'' 2000 1002 998], Built (exTransfer 998) 998 exRecipientHex)"
    by code_simp
  have pos: "0 < sint (totalRelayers exWriter)" by (simp add: exWriter_def)
  have r: "rounds ?env = [headerAt 7] @ headerAt 9 # []" by (simp add: exEnv_def)
  have h7: "finalizedHeader (headerAt 7) = Some 7" by (simp add: headerAt_def)
  have h9: "finalizedHeader (headerAt 9) = Some 9" by (simp add: headerAt_def)
  have t7: "\<not> heightTurn exWriter (exMsg 1 dot2000) 7"
    by (simp add: heightTurn_def processRound_def exWriter_def exMsg_def)
  have t9: "heightTurn exWriter (exMsg 1 dot2000) 9"
    by (simp add: heightTurn_def processRound_def exWriter_def exMsg_def)
  have tb: "msTxAsMulti ?env = [exOtherRecord] @ exRecord 30 True [] # []"
    by (simp add: exEnv_def)
  have n1: "\<not> matchesMs exRecipientHex 998 exOtherRecord" by code_simp
  have m1: "matchesMs exRecipientHex 998 (exRecord 30 True [])" by code_simp
  have e1: "Executed (exRecord 30 True [])" by (simp add: exRecord_def)
  have sk: "\<forall>ob \<in> set [headerAt 7].
              \<exists>n. finalizedHeader ob = Some n \<and> \<not> heightTurn exWriter (exMsg 1 dot2000) n"
    using h7 t7 by simp
  have first: "\<forall>x \<in> set [exOtherRecord]. \<not> matchesMs exRecipientHex 998 x" using n1 by simp
  have g: "20 - 1 \<noteq> (0 :: int)
           \<and> OriginMsTx (exRecord 30 True []) \<noteq> YesVoted exConfig
           \<and> OriginMsTx (exRecord 30 True []) \<noteq> NotExecuted exConfig"
    by (simp add: exRecord_def exConfig_def)
  show ?thesis
    using redeemTx_executed_first_match [OF built pos r sk h9 t9 tb first m1 e1,
        where mc = "exMultisig EmptyBytes (exTransfer 998) 0" and retryTimes = 20 and envs = "[]"]
      built pos r h7 t7 h9 t9 tb n1 m1 e1 g dest
    by auto
qed

text \<open>
  C3 as stated fails when an executed matching record comes after a matching record that is
  not executed: the scan stops at the earlier one and \<open>redeemTx\<close> submits an approval.
\<close>

theorem redeemTx_executed_later_match_counterexample:
  "msTxAsMulti (exEnv [exApproved, exRecord 30 True []]) = [exApproved, exRecord 30 True []]
   \<and> matchesMs exRecipientHex 998 (exRecord 30 True [])
   \<and> Executed (exRecord 30 True [])
   \<and> SubmitTxCalled (exMultisig (TimePointSafe32 40 1) (exTransfer 998) 5)
        \<in> set (fst (snd (redeemTx exConfig exLib exWriter (exMsg 1 dot2000)
                            (exEnv [exApproved, exRecord 30 True []]))))
   \<and> snd (snd (redeemTx exConfig exLib exWriter (exMsg 1 dot2000)
                  (exEnv [exApproved, exRecord 30 True []])))
        = Returned (False, NotExecuted exConfig)"
  by code_simp

subsection \<open>Votes\<close>









lemma votedSleep_UpdateMetadate [simp]: "votedSleep (UpdateMetadate w x) = votedSleep w"
  by (simp add: votedSleep_def)








subsection \<open>submitTx\<close>

lemma submitLoop_keeps_retrying:
  "snd (submitLoop k w c r (replicate n noMetadata @ [okAttempt])) = Returned ()"
  by (induction n arbitrary: r)
     (simp_all add: submitLoop.simps(2) noMetadata_def okAttempt_def prepend_def Let_def)

text \<open>
  C5. With a retry limit of two and a metadata RPC that fails four times, \<open>submitTx\<close>
  makes five attempts: it prints \<open>submit Tx failed, check it\<close> when the counter is zero,
  goes on to the third and the fourth attempt, and submits at the fifth.
\<close>

theorem submitTx_retries_past_limit:
  "BlockRetryLimit exConfig2 = 2
   \<and> submitTx exConfig2 exWriter (exTransfer 1)
        \<lparr>newApiOk = True,
         attempts = [noMetadata, noMetadata, noMetadata, noMetadata, okAttempt]\<rparr>
     = ([SubmitTxCalled (exTransfer 1),
         LogError GetMetadataError, LogError GetMetadataError,
         Printf submitFailedLine,
         LogError GetMetadataError, LogError GetMetadataError,
         SubmitAndWatchExtrinsic (exTransfer 1) MultiSign],
        Returned ())"
  by code_simp

subsection \<open>getRound when the RPCs fail\<close>

text \<open>
  C9. When both RPCs fail and \<open>GetHeader\<close> gives a nil header, \<open>getRound\<close> logs the two
  errors and panics on the nil header, and \<open>redeemTx\<close> with it. When only
  \<open>GetFinalizedHead\<close> fails, \<open>getRound\<close> returns the ordinary round of the header it got,
  which is the turn of a relayer: here \<open>redeemTx\<close> submits.
\<close>

theorem getRound_rpc_failure_panics:
  "getRound exWriter noHeader
     = ([LogError FailedToFetchFinalizedHash, LogError FailedToFetchFinalizedHeader],
        Inl NilDereference)
   \<and> snd (snd (redeemTx exConfig exLib exWriter (exMsg 1 dot2000)
                  ((exEnv [])\<lparr>rounds := [noHeader]\<rparr>)))
       = Panicked NilDereference
   \<and> getRound exWriter staleHeader
       = ([LogError FailedToFetchFinalizedHash], Inr \<lparr>blockHeight = 9, blockRound = 0\<rparr>)
   \<and> SubmitTxCalled (exMultisig EmptyBytes (exTransfer 998) 0)
       \<in> set (fst (snd (redeemTx exConfig exLib exWriter (exMsg 1 dot2000)
                           ((exEnv [])\<lparr>rounds := [staleHeader]\<rparr>))))"
  by code_simp

subsection \<open>An amount of zero\<close>

text \<open>
  C6 as stated fails: a Polkadot message whose conversion gives \<open>actual = 0\<close> is not
  rejected. With fixed fee 1000 and rate 1000, 1001 units give fee 1001 and \<open>actual = 0\<close>;
  with fixed fee 500, \<open>wrapped = divisor * fixed_fee\<close> gives \<open>actual = 0\<close>. In both cases
  \<open>redeemTx\<close> builds a transfer of 0 and submits it.
\<close>

theorem redeemTx_zero_amount_counterexample:
  "buildTransfer exConfig exLib exWriter (exMsg 1 dot1001)
     = ([CrossChainTx ''BDOT'' ''DOT'' 1001 1001 0], Built (exTransfer 0) 0 exRecipientHex)
   \<and> SubmitTxCalled (exMultisig EmptyBytes (exTransfer 0) 0)
       \<in> set (fst (snd (redeemTx exConfig exLib exWriter (exMsg 1 dot1001) (exEnv []))))
   \<and> snd (snd (redeemTx exConfig exLib exWriter (exMsg 1 dot1001) (exEnv [])))
       = Returned (False, NotExecuted exConfig)
   \<and> big_SetBytes dot500 = oneDOT * FixedDOTFee exConfigLowFee
   \<and> buildTransfer exConfigLowFee exLib exWriter (exMsg 1 dot500)
       = ([CrossChainTx ''BDOT'' ''DOT'' 500 500 0], Built (exTransfer 0) 0 exRecipientHex)
   \<and> SubmitTxCalled (exMultisig EmptyBytes (exTransfer 0) 0)
       \<in> set (fst (snd (redeemTx exConfigLowFee exLib exWriter (exMsg 1 dot500) (exEnv []))))"
  by code_simp

text \<open>
  C6, as amended. For a Polkadot or Kusama message, \<open>redeemTx\<close> rejects the redeem with
  \<open>AmountError\<close> exactly when \<open>actual < 0\<close>. When the conversion yields \<open>actual = 0\<close> it
  builds the transfer call with amount 0 (\<open>Balances.transfer_keep_alive\<close> to the recipient,
  when the metadata resolves the name; else the empty call, with the error logged) and
  goes on to the round loop with that call.
\<close>

theorem redeemTx_rejects_negative_only:
  assumes branch: "Destination m = Polkadot k \<and> unit = oneDOT \<and> fixedFee = FixedDOTFee k
                     \<and> tokenX = ''BDOT'' \<and> tokenY = ''DOT''
                 \<or> Destination m \<noteq> Polkadot k \<and> Destination m = Kusama k
                     \<and> unit = oneKSM \<and> fixedFee = FixedKSMFee k
                     \<and> tokenX = ''BKSM'' \<and> tokenY = ''KSM''"
    and p0: "payloadBytes m 0 = Inr wrappedBytes"
    and p1: "payloadBytes m 1 = Inr recipient"
    and rate: "0 < FeeRate k"
  shows "let received = big_SetBytes wrappedBytes div unit;
             actual = received - (fixedFee + received div FeeRate k);
             w' = UpdateMetadate w (metaLatest env);
             d = BytesToHex L (AsAccountID (NewAddressFromAccountID L recipient));
             transfer0 = Call BalancesTransferKeepAliveMethod
                           [ArgMultiAddress recipient, ArgUCompact 0]
         in (snd (buildTransfer k L w' m) = BuildAmountError) = (actual < 0)
          \<and> (actual < 0 \<longrightarrow>
               snd (redeemTx k L w m env)
                 = (fst (buildTransfer k L w' m) @ [Sleep RoundInterval],
                    Returned (True, AmountError k)))
          \<and> (actual = 0 \<and> BalancesTransferKeepAliveMethod \<in> set (meta w') \<longrightarrow>
                 buildTransfer k L w' m
                   = ([CrossChainTx tokenX tokenY received received 0], Built transfer0 0 d)
               \<and> snd (redeemTx k L w m env)
                   = deferred (prepend [CrossChainTx tokenX tokenY received received 0]
                       (roundLoop k L w' m transfer0 0 d (msTxAsMulti env) (submitEnv env)
                          (rounds env))))
          \<and> (actual = 0 \<and> BalancesTransferKeepAliveMethod \<notin> set (meta w') \<longrightarrow>
                 buildTransfer k L w' m
                   = ([CrossChainTx tokenX tokenY received received 0,
                       LogError NewBalancesTransferKeepAliveCallError],
                      Built (Call [] []) 0 d)
               \<and> snd (redeemTx k L w m env)
                   = deferred (prepend [CrossChainTx tokenX tokenY received received 0,
                                        LogError NewBalancesTransferKeepAliveCallError]
                       (roundLoop k L w' m (Call [] []) 0 d (msTxAsMulti env) (submitEnv env)
                          (rounds env))))"
proof -
  let ?w = "UpdateMetadate w (metaLatest env)"
  let ?d = "BytesToHex L (AsAccountID (NewAddressFromAccountID L recipient))"
  let ?received = "big_SetBytes wrappedBytes div unit"
  let ?actual = "?received - (fixedFee + ?received div FeeRate k)"
  let ?t0 = "Call BalancesTransferKeepAliveMethod [ArgMultiAddress recipient, ArgUCompact 0]"
  let ?nc = "newCallOrLog (meta ?w) BalancesTransferKeepAliveMethod
               [ArgMultiAddress recipient, ArgUCompact ?actual]
               NewBalancesTransferKeepAliveCallError"
  obtain neg where ft: "buildTransfer k L ?w m =
       feeTransfer (meta ?w) tokenX tokenY (big_SetBytes wrappedBytes) unit fixedFee (FeeRate k)
         neg recipient ?d"
    using branch p0 p1 by (auto simp: buildTransfer_def Let_def)
  have u: "0 < unit" using branch by (auto simp: oneDOT_def oneKSM_def)
  let ?logged = "[CrossChainTx tokenX tokenY ?received (fixedFee + ?received div FeeRate k)
                    ?actual]"
  have bt: "buildTransfer k L ?w m =
      (if ?actual < 0 then (?logged @ [LogError neg], BuildAmountError)
       else (?logged @ fst ?nc, Built (snd ?nc) ?actual ?d))"
    unfolding ft using feeTransfer_eq [OF u rate] by (simp add: Let_def)
  have one: "(snd (buildTransfer k L ?w m) = BuildAmountError) = (?actual < 0)"
    unfolding bt by simp
  have two: "?actual < 0 \<longrightarrow>
               snd (redeemTx k L w m env)
                 = (fst (buildTransfer k L ?w m) @ [Sleep RoundInterval],
                    Returned (True, AmountError k))"
  proof
    assume neg: "?actual < 0"
    then have "buildTransfer k L ?w m = (?logged @ [LogError neg], BuildAmountError)"
      unfolding bt by simp
    then show "snd (redeemTx k L w m env)
                 = (fst (buildTransfer k L ?w m) @ [Sleep RoundInterval],
                    Returned (True, AmountError k))"
      by (simp add: redeemTx_def Let_def deferred_def)
  qed
  have three: "?actual = 0 \<and> BalancesTransferKeepAliveMethod \<in> set (meta ?w) \<longrightarrow>
                 buildTransfer k L ?w m
                   = ([CrossChainTx tokenX tokenY ?received ?received 0], Built ?t0 0 ?d)
               \<and> snd (redeemTx k L w m env)
                   = deferred (prepend [CrossChainTx tokenX tokenY ?received ?received 0]
                       (roundLoop k L ?w m ?t0 0 ?d (msTxAsMulti env) (submitEnv env)
                          (rounds env)))"
  proof
    assume h: "?actual = 0 \<and> BalancesTransferKeepAliveMethod \<in> set (meta ?w)"
    then have z: "?actual = 0" and md: "BalancesTransferKeepAliveMethod \<in> set (meta ?w)"
      by simp_all
    have fee: "fixedFee + ?received div FeeRate k = ?received" using z by simp
    have nc: "?nc = ([], ?t0)"
      using md z by (simp add: newCallOrLog_def NewCall_def)
    have na: "\<not> ?actual < 0" using z by simp
    have b1: "buildTransfer k L ?w m = (?logged @ fst ?nc, Built (snd ?nc) ?actual ?d)"
      by (simp only: bt na if_False)
    have b2: "buildTransfer k L ?w m = (?logged @ [], Built ?t0 ?actual ?d)"
      by (simp only: b1 nc fst_conv snd_conv)
    have b0: "buildTransfer k L ?w m
                = ([CrossChainTx tokenX tokenY ?received ?received 0], Built ?t0 0 ?d)"
      using b2 z fee by simp
    show "buildTransfer k L ?w m
                   = ([CrossChainTx tokenX tokenY ?received ?received 0], Built ?t0 0 ?d)
               \<and> snd (redeemTx k L w m env)
                   = deferred (prepend [CrossChainTx tokenX tokenY ?received ?received 0]
                       (roundLoop k L ?w m ?t0 0 ?d (msTxAsMulti env) (submitEnv env)
                          (rounds env)))"
      using b0 redeemTx_built [OF b0] by simp
  qed
  have four: "?actual = 0 \<and> BalancesTransferKeepAliveMethod \<notin> set (meta ?w) \<longrightarrow>
                 buildTransfer k L ?w m
                   = ([CrossChainTx tokenX tokenY ?received ?received 0,
                       LogError NewBalancesTransferKeepAliveCallError],
                      Built (Call [] []) 0 ?d)
               \<and> snd (redeemTx k L w m env)
                   = deferred (prepend [CrossChainTx tokenX tokenY ?received ?received 0,
                                        LogError NewBalancesTransferKeepAliveCallError]
                       (roundLoop k L ?w m (Call [] []) 0 ?d (msTxAsMulti env) (submitEnv env)
                          (rounds env)))"
  proof
    assume h: "?actual = 0 \<and> BalancesTransferKeepAliveMethod \<notin> set (meta ?w)"
    then have z: "?actual = 0" and md: "BalancesTransferKeepAliveMethod \<notin> set (meta ?w)"
      by simp_all
    have fee: "fixedFee + ?received div FeeRate k = ?received" using z by simp
    have nc: "?nc = ([LogError NewBalancesTransferKeepAliveCallError], Call [] [])"
      using md z by (simp add: newCallOrLog_def NewCall_def)
    have na: "\<not> ?actual < 0" using z by simp
    have b1: "buildTransfer k L ?w m = (?logged @ fst ?nc, Built (snd ?nc) ?actual ?d)"
      by (simp only: bt na if_False)
    have b2: "buildTransfer k L ?w m
                = (?logged @ [LogError NewBalancesTransferKeepAliveCallError],
                   Built (Call [] []) ?actual ?d)"
      by (simp only: b1 nc fst_conv snd_conv)
    have b0: "buildTransfer k L ?w m
                = ([CrossChainTx tokenX tokenY ?received ?received 0,
                    LogError NewBalancesTransferKeepAliveCallError],
                   Built (Call [] []) 0 ?d)"
      using b2 z fee by simp
    show "buildTransfer k L ?w m
                   = ([CrossChainTx tokenX tokenY ?received ?received 0,
                       LogError NewBalancesTransferKeepAliveCallError],
                      Built (Call [] []) 0 ?d)
               \<and> snd (redeemTx k L w m env)
                   = deferred (prepend [CrossChainTx tokenX tokenY ?received ?received 0,
                                        LogError NewBalancesTransferKeepAliveCallError]
                       (roundLoop k L ?w m (Call [] []) 0 ?d (msTxAsMulti env) (submitEnv env)
                          (rounds env)))"
      using b0 redeemTx_built [OF b0] by simp
  qed
  show ?thesis unfolding Let_def using one two three four by blast
qed

theorem redeemTx_rejects_negative_only_witness:
  "Destination (exMsg 1 dot1001) = Polkadot exConfig
   \<and> payloadBytes (exMsg 1 dot1001) 0 = Inr dot1001
   \<and> payloadBytes (exMsg 1 dot1001) 1 = Inr [1, 2]
   \<and> 0 < FeeRate exConfig
   \<and> big_SetBytes dot1001 div oneDOT
        - (FixedDOTFee exConfig + big_SetBytes dot1001 div oneDOT div FeeRate exConfig) = 0
   \<and> BalancesTransferKeepAliveMethod
        \<in> set (meta (UpdateMetadate exWriter (metaLatest (exEnv []))))
   \<and> snd (buildTransfer exConfig exLib (UpdateMetadate exWriter (metaLatest (exEnv [])))
             (exMsg 1 dot1001)) \<noteq> BuildAmountError
   \<and> buildTransfer exConfig exLib (UpdateMetadate exWriter (metaLatest (exEnv [])))
        (exMsg 1 dot1001)
       = ([CrossChainTx ''BDOT'' ''DOT'' 1001 1001 0],
          Built (Call BalancesTransferKeepAliveMethod [ArgMultiAddress [1, 2], ArgUCompact 0]) 0
            (BytesToHex exLib (AsAccountID (NewAddressFromAccountID exLib [1, 2]))))
   \<and> snd (redeemTx exConfig exLib exWriter (exMsg 1 dot1001) (exEnv []))
       = deferred (prepend [CrossChainTx ''BDOT'' ''DOT'' 1001 1001 0]
           (roundLoop exConfig exLib (UpdateMetadate exWriter (metaLatest (exEnv [])))
              (exMsg 1 dot1001)
              (Call BalancesTransferKeepAliveMethod [ArgMultiAddress [1, 2], ArgUCompact 0]) 0
              (BytesToHex exLib (AsAccountID (NewAddressFromAccountID exLib [1, 2])))
              (msTxAsMulti (exEnv [])) (submitEnv (exEnv [])) (rounds (exEnv []))))"
proof -
  have v: "big_SetBytes dot1001 = 100100000000"
    by (simp add: big_SetBytes_def dot1001_def)
  have d: "Destination (exMsg 1 dot1001) = Polkadot exConfig"
    by (simp add: exMsg_def exConfig_def)
  have p0: "payloadBytes (exMsg 1 dot1001) 0 = Inr dot1001"
    by (simp add: payloadBytes_def exMsg_def)
  have p1: "payloadBytes (exMsg 1 dot1001) 1 = Inr [1, 2]"
    by (simp add: payloadBytes_def exMsg_def)
  have r: "0 < FeeRate exConfig" by (simp add: exConfig_def)
  have rv: "big_SetBytes dot1001 div oneDOT = 1001" by (simp add: v oneDOT_def)
  have z: "big_SetBytes dot1001 div oneDOT
        - (FixedDOTFee exConfig + big_SetBytes dot1001 div oneDOT div FeeRate exConfig) = 0"
    by (simp add: rv exConfig_def)
  have md: "BalancesTransferKeepAliveMethod
              \<in> set (meta (UpdateMetadate exWriter (metaLatest (exEnv []))))"
    by (simp add: UpdateMetadate_def exEnv_def exWriter_def BalancesTransferKeepAliveMethod_def)
  have br: "Destination (exMsg 1 dot1001) = Polkadot exConfig \<and> oneDOT = oneDOT
              \<and> FixedDOTFee exConfig = FixedDOTFee exConfig
              \<and> ''BDOT'' = ''BDOT'' \<and> ''DOT'' = ''DOT''
          \<or> Destination (exMsg 1 dot1001) \<noteq> Polkadot exConfig
              \<and> Destination (exMsg 1 dot1001) = Kusama exConfig
              \<and> oneDOT = oneKSM \<and> FixedDOTFee exConfig = FixedKSMFee exConfig
              \<and> ''BDOT'' = ''BKSM'' \<and> ''DOT'' = ''KSM''"
    using d by simp
  note t = redeemTx_rejects_negative_only [OF br p0 p1 r, of exWriter "exEnv []" exLib,
      unfolded Let_def]
  have t1: "snd (buildTransfer exConfig exLib (UpdateMetadate exWriter (metaLatest (exEnv [])))
             (exMsg 1 dot1001)) \<noteq> BuildAmountError"
    using t z by simp
  have t3: "buildTransfer exConfig exLib (UpdateMetadate exWriter (metaLatest (exEnv [])))
        (exMsg 1 dot1001)
       = ([CrossChainTx ''BDOT'' ''DOT'' 1001 1001 0],
          Built (Call BalancesTransferKeepAliveMethod [ArgMultiAddress [1, 2], ArgUCompact 0]) 0
            (BytesToHex exLib (AsAccountID (NewAddressFromAccountID exLib [1, 2]))))
   \<and> snd (redeemTx exConfig exLib exWriter (exMsg 1 dot1001) (exEnv []))
       = deferred (prepend [CrossChainTx ''BDOT'' ''DOT'' 1001 1001 0]
           (roundLoop exConfig exLib (UpdateMetadate exWriter (metaLatest (exEnv [])))
              (exMsg 1 dot1001)
              (Call BalancesTransferKeepAliveMethod [ArgMultiAddress [1, 2], ArgUCompact 0]) 0
              (BytesToHex exLib (AsAccountID (NewAddressFromAccountID exLib [1, 2])))
              (msTxAsMulti (exEnv [])) (submitEnv (exEnv [])) (rounds (exEnv []))))"
    using t z md unfolding rv by blast
  show ?thesis using d p0 p1 r z md t1 t3 by blast
qed

subsection \<open>The call for ChainX PCX\<close>

text \<open>
  C8 as stated fails: for a ChainX-PCX message the inner call is built with the method
  name that the Polkadot and Kusama branches use, \<open>Balances.transfer_keep_alive\<close>, and
  not \<open>Balances.transfer\<close>, although the metadata here resolves both.
\<close>

theorem buildTransfer_pcx_counterexample:
  "Destination (exMsg 4 dot2000) = ChainXPCX exConfig
   \<and> ''Balances.transfer'' \<in> set (meta exWriter)
   \<and> buildTransfer exConfig exLib exWriter (exMsg 4 dot2000)
       = ([CrossChainTx ''BPCX'' ''PCX'' 20 0 20], Built (exPcxTransfer 20) 20 exRecipientHex)
   \<and> callMethod (exPcxTransfer 20) = ''Balances.transfer_keep_alive''
   \<and> callMethod (exPcxTransfer 20) \<noteq> ''Balances.transfer''"
  by code_simp

text \<open>
  C8, as amended. For a ChainX-PCX message the inner call built by \<open>redeemTx\<close> is the
  method named by \<open>BalancesTransferKeepAliveMethod\<close> (\<open>Balances.transfer_keep_alive\<close>),
  the one the Polkadot and Kusama branches use, with the arguments
  \<open>(xRole = 255, Address(recipient), compact(actual))\<close>, where \<open>actual = wrapped / 10^10\<close>;
  when the metadata does not resolve that name the call is empty and
  \<open>NewBalancesTransferCallError\<close> is logged.
\<close>

theorem buildTransfer_pcx_call:
  assumes dest: "Destination m = ChainXPCX k"
    and others: "Destination m \<noteq> Polkadot k" "Destination m \<noteq> Kusama k"
                "Destination m \<noteq> ChainXBTC k"
    and p0: "payloadBytes m 0 = Inr wrappedBytes"
    and p1: "payloadBytes m 1 = Inr recipient"
  shows "let actual = big_SetBytes wrappedBytes div 10 ^ 10;
             d = BytesToHex L (AsAccountID (NewAddressFromAccountID L recipient));
             logged = [CrossChainTx ''BPCX'' ''PCX'' actual 0 actual]
         in buildTransfer k L w m
              = (if BalancesTransferKeepAliveMethod \<in> set (meta w)
                 then (logged,
                       Built (Call ''Balances.transfer_keep_alive''
                                [ArgU8 255, ArgAddress (NewAddressFromAccountID L recipient),
                                 ArgUCompact actual]) actual d)
                 else (logged @ [LogError NewBalancesTransferCallError],
                       Built (Call [] []) actual d))"
proof -
  have nn: "\<not> big_SetBytes wrappedBytes div 10000000000 < 0"
    using big_SetBytes_nonneg [of wrappedBytes]
    by (simp add: pos_imp_zdiv_neg_iff)
  show ?thesis
    using dest others p0 p1 nn
    by (simp add: buildTransfer_def Let_def big_Div_def onePCX_def newCallOrLog_def NewCall_def
        xRole_def BalancesTransferKeepAliveMethod_def)
qed

theorem buildTransfer_pcx_call_witness:
  "Destination (exMsg 4 dot2000) = ChainXPCX exConfig
   \<and> Destination (exMsg 4 dot2000) \<noteq> Polkadot exConfig
   \<and> Destination (exMsg 4 dot2000) \<noteq> Kusama exConfig
   \<and> Destination (exMsg 4 dot2000) \<noteq> ChainXBTC exConfig
   \<and> payloadBytes (exMsg 4 dot2000) 0 = Inr dot2000
   \<and> payloadBytes (exMsg 4 dot2000) 1 = Inr [1, 2]
   \<and> buildTransfer exConfig exLib exWriter (exMsg 4 dot2000)
       = ([CrossChainTx ''BPCX'' ''PCX'' 20 0 20],
          Built (Call ''Balances.transfer_keep_alive''
                   [ArgU8 255, ArgAddress (NewAddressFromAccountID exLib [1, 2]),
                    ArgUCompact 20]) 20
            (BytesToHex exLib (AsAccountID (NewAddressFromAccountID exLib [1, 2]))))"
proof -
  have v: "big_SetBytes dot2000 = 200000000000"
    by (simp add: big_SetBytes_def dot2000_def)
  have d: "Destination (exMsg 4 dot2000) = ChainXPCX exConfig"
    by (simp add: exMsg_def exConfig_def)
  have o1: "Destination (exMsg 4 dot2000) \<noteq> Polkadot exConfig"
    and o2: "Destination (exMsg 4 dot2000) \<noteq> Kusama exConfig"
    and o3: "Destination (exMsg 4 dot2000) \<noteq> ChainXBTC exConfig"
    by (simp_all add: exMsg_def exConfig_def)
  have p0: "payloadBytes (exMsg 4 dot2000) 0 = Inr dot2000"
    by (simp add: payloadBytes_def exMsg_def)
  have p1: "payloadBytes (exMsg 4 dot2000) 1 = Inr [1, 2]"
    by (simp add: payloadBytes_def exMsg_def)
  have md: "BalancesTransferKeepAliveMethod \<in> set (meta exWriter)"
    by (simp add: BalancesTransferKeepAliveMethod_def exWriter_def)
  show ?thesis
    using buildTransfer_pcx_call [OF d o1 o2 o3 p0 p1, of exLib exWriter] d o1 o2 o3 p0 p1 md
    by (simp add: Let_def v)
qed

subsection \<open>The ChainX destinations\<close>

lemma newCallOrLog_no_neg:
  "msg \<noteq> RedeemNegAmountError \<Longrightarrow> newCallOrLog md name as msg = (es, c) \<Longrightarrow>
   LogError RedeemNegAmountError \<notin> set es"
  by (auto simp: newCallOrLog_def split: option.splits)

lemma submitLoop_no_neg:
  "LogError RedeemNegAmountError \<notin> set (fst (submitLoop k w c r as))"
  by (induction as arbitrary: r) (simp_all add: submitLoop.simps(2) Let_def prepend_def)

lemma submitTx_no_neg: "LogError RedeemNegAmountError \<notin> set (fst (submitTx k w c env))"
  by (simp add: submitTx_def Let_def prepend_def submitLoop_no_neg)

lemma othersLoop_no_neg: "LogError RedeemNegAmountError \<notin> set (fst (othersLoop k L w oss))"
  by (induction oss) auto

lemma isFinish_no_neg: "LogError RedeemNegAmountError \<notin> set (fst (isFinish k L w ms))"
  by (simp add: isFinish_def othersLoop_no_neg)

lemma scanMsTx_no_neg:
  "LogError RedeemNegAmountError \<notin> set (fst (scanMsTx k L w d a table tp mw))"
proof (induction table arbitrary: tp)
  case Nil
  then show ?case by simp
next
  case (Cons ms rest)
  show ?case
    using isFinish_no_neg [of k L w ms] Cons
    by (cases "isFinish k L w ms") (auto split: if_splits)
qed

lemma onTurn_no_neg:
  "LogError RedeemNegAmountError \<notin> set (fst (onTurn k L w m c a d table env))"
proof -
  obtain logged sc where s: "scanMsTx k L w d a table NilTimePoint 0 = (logged, sc)"
    by (cases "scanMsTx k L w d a table NilTimePoint 0")
  have nl: "LogError RedeemNegAmountError \<notin> set logged"
    using scanMsTx_no_neg [of k L w d a table NilTimePoint 0] s by simp
  show ?thesis
  proof (cases sc)
    case (Finished b t)
    then show ?thesis using s nl by (simp add: onTurn_def)
  next
    case (Proceed tp mw)
    have "\<And>mc es r. submitTx k w mc env = (es, r) \<Longrightarrow> LogError RedeemNegAmountError \<notin> set es"
      using submitTx_no_neg [of k w _ env] by (metis fst_conv)
    then show ?thesis
      using Proceed s nl
      by (auto simp: onTurn_def Let_def split: if_splits prod.splits
          dest: newCallOrLog_no_neg [rotated])
  qed
qed

lemma getRound_no_neg: "LogError RedeemNegAmountError \<notin> set (fst (getRound w obs))"
  by (simp add: getRound_def Let_def split: option.split)

lemma roundLoop_no_neg:
  "LogError RedeemNegAmountError \<notin> set (fst (roundLoop k L w m c a d table env obss))"
proof (induction obss)
  case Nil
  then show ?case by simp
next
  case (Cons obs rest)
  obtain logged r where g: "getRound w obs = (logged, r)" by (cases "getRound w obs")
  have nl: "LogError RedeemNegAmountError \<notin> set logged"
    using getRound_no_neg [of w obs] g by simp
  show ?case
    using Cons nl g onTurn_no_neg [of k L w m c a d table env]
    by (auto simp: roundLoop.simps(2) Let_def prepend_def split: if_splits sum.splits)
qed

lemma othersLoop_result:
  "othersLoop k L w oss = (lg, True, tx) \<Longrightarrow> tx = YesVoted k"
  by (induction oss) (auto split: if_splits)

lemma scanMsTx_result:
  "snd (scanMsTx k L w d a table tp mw) = Finished b tx \<Longrightarrow>
   tx = YesVoted k \<or> (\<exists>ms \<in> set table. tx = OriginMsTx ms)"
proof (induction table arbitrary: tp)
  case Nil
  then show ?case by simp
next
  case (Cons ms rest)
  obtain lg fin ex where f: "isFinish k L w ms = (lg, fin, ex)"
    by (cases "isFinish k L w ms") auto
  have fr: "fin \<Longrightarrow> ex = OriginMsTx ms \<or> ex = YesVoted k"
    using f othersLoop_result [of k L w "Others ms" lg ex]
    by (auto simp: isFinish_def split: if_splits)
  show ?case
    using Cons f fr by (auto split: if_splits)
qed

lemma onTurn_result:
  assumes "snd (onTurn k L w m c a d table env) = Returned (b, tx)"
  shows "tx = NotExecuted k \<or> tx = YesVoted k \<or> (\<exists>ms \<in> set table. tx = OriginMsTx ms)"
proof -
  obtain logged sc where s: "scanMsTx k L w d a table NilTimePoint 0 = (logged, sc)"
    by (cases "scanMsTx k L w d a table NilTimePoint 0")
  show ?thesis
  proof (cases sc)
    case (Finished b' t)
    then have "t = tx" using assms s by (simp add: onTurn_def)
    then show ?thesis
      using scanMsTx_result [of k L w d a table NilTimePoint 0 b' tx] s Finished by simp
  next
    case (Proceed tp mw)
    then show ?thesis
      using assms s
      by (auto simp: onTurn_def Let_def split: if_splits prod.splits outcome.splits)
  qed
qed

lemma roundLoop_result:
  "snd (roundLoop k L w m c a d table env obss) = Returned (b, tx) \<Longrightarrow>
   tx = NotExecuted k \<or> tx = YesVoted k \<or> (\<exists>ms \<in> set table. tx = OriginMsTx ms)"
proof (induction obss)
  case Nil
  then show ?case by simp
next
  case (Cons obs rest)
  obtain logged r where g: "getRound w obs = (logged, r)" by (cases "getRound w obs")
  show ?case
    using Cons g onTurn_result [of k L w m c a d table env b tx]
    by (auto simp: roundLoop.simps(2) Let_def prepend_def split: if_splits sum.splits)
qed

lemma buildTransfer_chainx:
  assumes dest: "Destination m = ChainXBTC k \<or> Destination m = ChainXPCX k"
    and others: "Destination m \<noteq> Polkadot k" "Destination m \<noteq> Kusama k"
  shows "snd (buildTransfer k L w m) \<noteq> BuildAmountError"
    and "LogError RedeemNegAmountError \<notin> set (fst (buildTransfer k L w m))"
proof -
  have nn: "\<not> big_SetBytes bs div 10000000000 < 0" for bs
    using big_SetBytes_nonneg [of bs] by (simp add: pos_imp_zdiv_neg_iff)
  show "snd (buildTransfer k L w m) \<noteq> BuildAmountError"
    using dest others nn
    by (auto simp: buildTransfer_def Let_def big_Div_def oneXBTC_def onePCX_def
        split: sum.splits prod.splits)
  show "LogError RedeemNegAmountError \<notin> set (fst (buildTransfer k L w m))"
    using dest others nn
    by (auto simp: buildTransfer_def Let_def big_Div_def oneXBTC_def onePCX_def
        split: sum.splits prod.splits dest: newCallOrLog_no_neg [rotated])
qed

text \<open>
  C10. For a message with destination ChainXBTC or ChainXPCX, \<open>redeemTx\<close> never takes
  the \<open>actualAmount < 0\<close> branch: the amount is a non-negative integer divided by
  \<open>10^10\<close>, so the build step never ends in \<open>AmountError\<close> and \<open>RedeemNegAmountError\<close> is
  never logged. \<open>redeemTx\<close> then never returns \<open>AmountError\<close>: what it returns is
  \<open>NotExecuted\<close>, \<open>YesVoted\<close> or the key of a record of the listener, and \<open>AmountError\<close>
  is a marker distinct from these. The chain ids are distinct constants.
\<close>

theorem redeemTx_chainx_never_AmountError:
  assumes dest: "Destination m = ChainXBTC k \<or> Destination m = ChainXPCX k"
    and others: "Destination m \<noteq> Polkadot k" "Destination m \<noteq> Kusama k"
  shows "snd (buildTransfer k L (UpdateMetadate w (metaLatest env)) m) \<noteq> BuildAmountError
       \<and> LogError RedeemNegAmountError \<notin> set (fst (snd (redeemTx k L w m env)))
       \<and> (AmountError k \<noteq> YesVoted k \<and> AmountError k \<noteq> NotExecuted k
            \<and> (\<forall>ms \<in> set (msTxAsMulti env). OriginMsTx ms \<noteq> AmountError k) \<longrightarrow>
          snd (snd (redeemTx k L w m env)) \<noteq> Returned (b, AmountError k))"
proof -
  let ?w = "UpdateMetadate w (metaLatest env)"
  obtain logged bt where b: "buildTransfer k L ?w m = (logged, bt)"
    by (cases "buildTransfer k L ?w m")
  have ne: "bt \<noteq> BuildAmountError"
    using buildTransfer_chainx(1) [OF dest others, of L ?w] b by simp
  have nl: "LogError RedeemNegAmountError \<notin> set logged"
    using buildTransfer_chainx(2) [OF dest others, of L ?w] b by simp
  have one: "snd (buildTransfer k L ?w m) \<noteq> BuildAmountError" using b ne by simp
  have rest: "LogError RedeemNegAmountError \<notin> set (fst (snd (redeemTx k L w m env)))
       \<and> (AmountError k \<noteq> YesVoted k \<and> AmountError k \<noteq> NotExecuted k
            \<and> (\<forall>ms \<in> set (msTxAsMulti env). OriginMsTx ms \<noteq> AmountError k) \<longrightarrow>
          snd (snd (redeemTx k L w m env)) \<noteq> Returned (b, AmountError k))"
  proof (cases bt)
    case (BuildPanic p)
    then show ?thesis using b nl by (simp add: redeemTx_def Let_def deferred_def)
  next
    case BuildAmountError
    then show ?thesis using ne by simp
  next
    case (Built c a d)
    let ?r = "roundLoop k L ?w m c a d (msTxAsMulti env) (submitEnv env) (rounds env)"
    have sr: "snd (redeemTx k L w m env) = deferred (prepend logged ?r)"
      using b Built by (simp add: redeemTx_def Let_def)
    have nr: "LogError RedeemNegAmountError \<notin> set (fst ?r)" by (rule roundLoop_no_neg)
    have l: "LogError RedeemNegAmountError \<notin> set (fst (deferred (prepend logged ?r)))"
      using nr nl deferred_set [of "prepend logged ?r"] by (auto simp: prepend_def)
    have v: "snd (deferred (prepend logged ?r)) = snd ?r"
      by (simp add: deferred_def prepend_def split: outcome.split)
    have "AmountError k \<noteq> YesVoted k \<and> AmountError k \<noteq> NotExecuted k
            \<and> (\<forall>ms \<in> set (msTxAsMulti env). OriginMsTx ms \<noteq> AmountError k) \<longrightarrow>
          snd ?r \<noteq> Returned (b, AmountError k)"
    proof (intro impI notI)
      assume h: "AmountError k \<noteq> YesVoted k \<and> AmountError k \<noteq> NotExecuted k
            \<and> (\<forall>ms \<in> set (msTxAsMulti env). OriginMsTx ms \<noteq> AmountError k)"
        and eq: "snd ?r = Returned (b, AmountError k)"
      from roundLoop_result [OF eq] h show False by auto
    qed
    then show ?thesis using l v by (simp add: sr)
  qed
  show ?thesis using one rest by blast
qed

theorem redeemTx_chainx_never_AmountError_witness:
  "Destination (exMsg 3 dot2000) = ChainXBTC exConfig
   \<and> Destination (exMsg 3 dot2000) \<noteq> Polkadot exConfig
   \<and> Destination (exMsg 3 dot2000) \<noteq> Kusama exConfig
   \<and> AmountError exConfig \<noteq> YesVoted exConfig
   \<and> AmountError exConfig \<noteq> NotExecuted exConfig
   \<and> OriginMsTx (exRecord 30 True []) \<noteq> AmountError exConfig
   \<and> snd (buildTransfer exConfig exLib
             (UpdateMetadate exWriter (metaLatest (exEnv [exRecord 30 True []])))
             (exMsg 3 dot2000)) \<noteq> BuildAmountError
   \<and> LogError RedeemNegAmountError
       \<notin> set (fst (snd (redeemTx exConfig exLib exWriter (exMsg 3 dot2000)
                           (exEnv [exRecord 30 True []]))))
   \<and> snd (snd (redeemTx exConfig exLib exWriter (exMsg 3 dot2000)
                  (exEnv [exRecord 30 True []])))
       \<noteq> Returned (True, AmountError exConfig)"
proof -
  have d: "Destination (exMsg 3 dot2000) = ChainXBTC exConfig
           \<or> Destination (exMsg 3 dot2000) = ChainXPCX exConfig"
    by (simp add: exMsg_def exConfig_def)
  have o1: "Destination (exMsg 3 dot2000) \<noteq> Polkadot exConfig"
    and o2: "Destination (exMsg 3 dot2000) \<noteq> Kusama exConfig"
    by (simp_all add: exMsg_def exConfig_def)
  have m: "AmountError exConfig \<noteq> YesVoted exConfig"
      "AmountError exConfig \<noteq> NotExecuted exConfig"
      "OriginMsTx (exRecord 30 True []) \<noteq> AmountError exConfig"
      "Destination (exMsg 3 dot2000) = ChainXBTC exConfig"
    by (simp_all add: exConfig_def exRecord_def exMsg_def)
  have t: "msTxAsMulti (exEnv [exRecord 30 True []]) = [exRecord 30 True []]"
    by (simp add: exEnv_def)
  show ?thesis
    using redeemTx_chainx_never_AmountError [OF d o1 o2, of exLib exWriter
        "exEnv [exRecord 30 True []]" True] o1 o2 m
    by (simp add: t)
qed

subsection \<open>ResolveMessage for a message of another chain\<close>

lemma scanMessages_eq:
  assumes "payloadBytes m 0 = Inr amountBytes" "payloadBytes m 1 = Inr recipient"
  shows "scanMessages m msgs isRepeat = Inr (isRepeat \<or> repeatsIn m amountBytes recipient msgs)"
  using assms
  by (induction msgs arbitrary: isRepeat) (auto simp: repeatsIn_def repeats_def)

lemma checkRepeat_current:
  "snd (checkRepeat m msgs later) = Returned (ok, current) \<Longrightarrow> current \<in> set (msgs # later)"
proof (induction later arbitrary: msgs)
  case Nil
  then show ?case
    by (subst (asm) checkRepeat.simps) (auto split: sum.splits if_splits)
next
  case (Cons nxt rest)
  from Cons.prems have "current = msgs \<or> snd (checkRepeat m nxt rest) = Returned (ok, current)"
    by (subst (asm) checkRepeat.simps) (auto simp: prepend_def split: sum.splits if_splits)
  then show ?case using Cons.IH [of nxt] by auto
qed

lemma checkRepeat_no_spawn: "Spawn \<notin> set (fst (checkRepeat m msgs later))"
proof (induction later arbitrary: msgs)
  case Nil
  show ?case by (subst checkRepeat.simps) (auto split: sum.splits)
next
  case (Cons nxt rest)
  show ?case
    using Cons [of nxt]
    by (subst checkRepeat.simps) (auto simp: prepend_def split: sum.splits)
qed

lemma checkRepeat_clear:
  "scanMessages m msgs False = Inr False \<Longrightarrow>
   checkRepeat m msgs later = ([], Returned (True, msgs))"
  by (subst checkRepeat.simps) simp

lemma checkRepeat_blocked:
  "scanMessages m msgs False = Inr True \<Longrightarrow>
   \<exists>rest. fst (checkRepeat m msgs later) = LogInfo MeetARepeatTx # Sleep RoundInterval # rest"
  by (subst checkRepeat.simps) (auto simp: prepend_def split: list.splits)

lemma checkRepeat_polls:
  assumes p0: "payloadBytes m 0 = Inr amountBytes" and p1: "payloadBytes m 1 = Inr recipient"
  shows "msgs # later = blocked @ clear # rest \<Longrightarrow>
         \<forall>s \<in> set blocked. repeatsIn m amountBytes recipient s \<Longrightarrow>
         \<not> repeatsIn m amountBytes recipient clear \<Longrightarrow>
         checkRepeat m msgs later
           = (concat (map (\<lambda>s. [LogInfo MeetARepeatTx, Sleep RoundInterval]) blocked),
              Returned (True, clear))"
proof (induction blocked arbitrary: msgs later)
  case Nil
  then have "msgs = clear" by simp
  moreover have "scanMessages m clear False = Inr False"
    using Nil.prems(3) by (simp add: scanMessages_eq [OF p0 p1])
  ultimately show ?case using checkRepeat_clear [of m clear later] by simp
next
  case (Cons b bs)
  from Cons.prems(1) have mb: "msgs = b" and l: "later = bs @ clear # rest" by simp_all
  have ne: "later \<noteq> []" using l by simp
  obtain nxt rest' where nl: "later = nxt # rest'" using ne by (cases later) auto
  have sc: "scanMessages m msgs False = Inr True"
    using Cons.prems(2) mb by (simp add: scanMessages_eq [OF p0 p1])
  have step: "checkRepeat m msgs later
                = prepend [LogInfo MeetARepeatTx, Sleep RoundInterval] (checkRepeat m nxt rest')"
    by (subst checkRepeat.simps) (simp add: sc nl)
  have "nxt # rest' = bs @ clear # rest" using l nl by simp
  moreover have "\<forall>s \<in> set bs. repeatsIn m amountBytes recipient s" using Cons.prems(2) by simp
  ultimately have "checkRepeat m nxt rest'
           = (concat (map (\<lambda>s. [LogInfo MeetARepeatTx, Sleep RoundInterval]) bs),
              Returned (True, clear))"
    using Cons.IH [of nxt rest'] Cons.prems(3) by blast
  then show ?case unfolding step by (simp add: prepend_def)
qed

lemma checkRepeat_all_blocked:
  assumes p0: "payloadBytes m 0 = Inr amountBytes" and p1: "payloadBytes m 1 = Inr recipient"
  shows "\<forall>s \<in> set (msgs # later). repeatsIn m amountBytes recipient s \<Longrightarrow>
         checkRepeat m msgs later
           = (concat (map (\<lambda>s. [LogInfo MeetARepeatTx, Sleep RoundInterval]) (msgs # later)),
              Waiting)"
proof (induction later arbitrary: msgs)
  case Nil
  then have sc: "scanMessages m msgs False = Inr True"
    by (simp add: scanMessages_eq [OF p0 p1])
  show ?case by (subst checkRepeat.simps) (simp add: sc)
next
  case (Cons nxt rest')
  then have sc: "scanMessages m msgs False = Inr True"
    by (simp add: scanMessages_eq [OF p0 p1])
  have step: "checkRepeat m msgs (nxt # rest')
                = prepend [LogInfo MeetARepeatTx, Sleep RoundInterval] (checkRepeat m nxt rest')"
    by (subst checkRepeat.simps) (simp add: sc)
  have "\<forall>s \<in> set (nxt # rest'). repeatsIn m amountBytes recipient s" using Cons.prems by simp
  from Cons.IH [OF this] show ?case unfolding step by (simp add: prepend_def)
qed

lemma ex_scan_blocked:
  "scanMessages (exMsg 2 dot2000) exInFlight False = Inr True"
  by (simp add: exInFlight_def exMsg_def repeats_def payloadBytes_def)

lemma ex_scan_clear: "scanMessages (exMsg 2 dot2000) [] False = Inr False"
  by simp

text \<open>
  C7 as stated fails: \<open>ResolveMessage\<close> calls \<open>checkRepeat\<close> before it looks at the
  destination. A message for another chain, whose amount and recipient are those of a
  deposit in flight, waits in the repeat gate: it is still waiting when the entry stays,
  and it returns false only after the sleeps, once the entry has gone.
\<close>

theorem ResolveMessage_not_mine_counterexample:
  "Destination (exMsg 2 dot2000) \<noteq> chainId exWriter
   \<and> ResolveMessage exWriter (exMsg 2 dot2000) exInFlight []
       = ([LogInfo MeetARepeatTx, Sleep RoundInterval], Waiting)
   \<and> ResolveMessage exWriter (exMsg 2 dot2000) exInFlight [exInFlight, []]
       = ([LogInfo MeetARepeatTx, Sleep RoundInterval,
           LogInfo MeetARepeatTx, Sleep RoundInterval, LogInfo NotMine],
          Returned (False, []))"
proof -
  have d: "Destination (exMsg 2 dot2000) \<noteq> chainId exWriter"
    by (simp add: exMsg_def exWriter_def)
  have c0: "checkRepeat (exMsg 2 dot2000) [] [] = ([], Returned (True, []))"
    by (subst checkRepeat.simps) (simp add: ex_scan_clear)
  have c1: "checkRepeat (exMsg 2 dot2000) exInFlight [[]]
              = ([LogInfo MeetARepeatTx, Sleep RoundInterval], Returned (True, []))"
    by (subst checkRepeat.simps) (simp add: ex_scan_blocked c0 prepend_def)
  have c2: "checkRepeat (exMsg 2 dot2000) exInFlight [exInFlight, []]
              = ([LogInfo MeetARepeatTx, Sleep RoundInterval,
                  LogInfo MeetARepeatTx, Sleep RoundInterval], Returned (True, []))"
    by (subst checkRepeat.simps) (simp add: ex_scan_blocked c1 prepend_def)
  have c3: "checkRepeat (exMsg 2 dot2000) exInFlight []
              = ([LogInfo MeetARepeatTx, Sleep RoundInterval], Waiting)"
    by (subst checkRepeat.simps) (simp add: ex_scan_blocked)
  show ?thesis using d by (simp add: ResolveMessage_def c2 c3)
qed

text \<open>
  C7, as amended. For a message whose destination differs from this writer's chain id,
  \<open>ResolveMessage\<close> first applies the repeat gate: at each poll that finds another
  deposit with the same recipient and amount in flight it logs and sleeps one
  \<open>RoundInterval\<close> and polls again; at the first poll that finds none it logs
  \<open>Not Mine\<close> and returns false, and while every poll finds one it does not return. With
  no such deposit in flight at the first poll it returns false at once. Whenever it
  returns, it returns false, spawns no goroutine and inserts nothing: the in-flight map
  is the one the last poll read.
\<close>

theorem ResolveMessage_not_mine:
  assumes dest: "Destination m \<noteq> chainId w"
    and p0: "payloadBytes m 0 = Inr amountBytes"
    and p1: "payloadBytes m 1 = Inr recipient"
  shows "(repeatsIn m amountBytes recipient msgs \<longrightarrow>
            (\<exists>rest. fst (ResolveMessage w m msgs later)
                      = LogInfo MeetARepeatTx # Sleep RoundInterval # rest))
       \<and> (\<not> repeatsIn m amountBytes recipient msgs \<longrightarrow>
            ResolveMessage w m msgs later = ([LogInfo NotMine], Returned (False, msgs)))
       \<and> (snd (ResolveMessage w m msgs later) = Returned (accepted, msgs') \<longrightarrow>
            \<not> accepted \<and> msgs' \<in> set (msgs # later))
       \<and> Spawn \<notin> set (fst (ResolveMessage w m msgs later))
       \<and> (msgs # later = blocked @ clear # rest
            \<and> (\<forall>s \<in> set blocked. repeatsIn m amountBytes recipient s)
            \<and> \<not> repeatsIn m amountBytes recipient clear \<longrightarrow>
          ResolveMessage w m msgs later
            = (concat (map (\<lambda>s. [LogInfo MeetARepeatTx, Sleep RoundInterval]) blocked)
                 @ [LogInfo NotMine],
               Returned (False, clear)))
       \<and> ((\<forall>s \<in> set (msgs # later). repeatsIn m amountBytes recipient s) \<longrightarrow>
          ResolveMessage w m msgs later
            = (concat (map (\<lambda>s. [LogInfo MeetARepeatTx, Sleep RoundInterval]) (msgs # later)),
               Waiting))"
proof -
  obtain evs out where co: "checkRepeat m msgs later = (evs, out)"
    by (cases "checkRepeat m msgs later")
  have shape: "(\<exists>ok cur. out = Returned (ok, cur)
                  \<and> ResolveMessage w m msgs later
                      = (evs @ [LogInfo NotMine], Returned (False, cur)))
             \<or> (out \<noteq> Returned (accepted, msgs') \<and> ResolveMessage w m msgs later = (evs, out))"
  proof (cases out)
    case (Returned x)
    obtain ok cur where x: "x = (ok, cur)" by (cases x)
    have "ResolveMessage w m msgs later = (evs @ [LogInfo NotMine], Returned (False, cur))"
      unfolding ResolveMessage_def co Returned x using dest by simp
    then show ?thesis using Returned x by blast
  next
    case (Panicked p)
    have "ResolveMessage w m msgs later = (evs, out)"
      unfolding ResolveMessage_def co Panicked by simp
    then show ?thesis using Panicked by simp
  next
    case Waiting
    have "ResolveMessage w m msgs later = (evs, out)"
      unfolding ResolveMessage_def co Waiting by simp
    then show ?thesis using Waiting by simp
  qed
  have nospawn: "Spawn \<notin> set evs" using checkRepeat_no_spawn [of m msgs later] co by simp
  have one: "repeatsIn m amountBytes recipient msgs \<longrightarrow>
            (\<exists>rest. fst (ResolveMessage w m msgs later)
                      = LogInfo MeetARepeatTx # Sleep RoundInterval # rest)"
  proof
    assume "repeatsIn m amountBytes recipient msgs"
    then have "scanMessages m msgs False = Inr True"
      by (simp add: scanMessages_eq [OF p0 p1])
    from checkRepeat_blocked [OF this, of later] obtain rest where
      c: "evs = LogInfo MeetARepeatTx # Sleep RoundInterval # rest"
      using co by auto
    from shape show "\<exists>rest. fst (ResolveMessage w m msgs later)
                      = LogInfo MeetARepeatTx # Sleep RoundInterval # rest"
    proof
      assume "\<exists>ok cur. out = Returned (ok, cur)
                  \<and> ResolveMessage w m msgs later
                      = (evs @ [LogInfo NotMine], Returned (False, cur))"
      then have "fst (ResolveMessage w m msgs later)
                   = LogInfo MeetARepeatTx # Sleep RoundInterval # (rest @ [LogInfo NotMine])"
        using c by auto
      then show ?thesis by blast
    next
      assume "out \<noteq> Returned (accepted, msgs') \<and> ResolveMessage w m msgs later = (evs, out)"
      then have "fst (ResolveMessage w m msgs later)
                   = LogInfo MeetARepeatTx # Sleep RoundInterval # rest"
        using c by simp
      then show ?thesis by blast
    qed
  qed
  have two: "\<not> repeatsIn m amountBytes recipient msgs \<longrightarrow>
            ResolveMessage w m msgs later = ([LogInfo NotMine], Returned (False, msgs))"
  proof
    assume "\<not> repeatsIn m amountBytes recipient msgs"
    then have "scanMessages m msgs False = Inr False"
      by (simp add: scanMessages_eq [OF p0 p1])
    from checkRepeat_clear [OF this, of later]
    have c: "checkRepeat m msgs later = ([], Returned (True, msgs))" .
    show "ResolveMessage w m msgs later = ([LogInfo NotMine], Returned (False, msgs))"
      unfolding ResolveMessage_def c using dest by simp
  qed
  have three: "snd (ResolveMessage w m msgs later) = Returned (accepted, msgs') \<longrightarrow>
            \<not> accepted \<and> msgs' \<in> set (msgs # later)"
  proof
    assume a: "snd (ResolveMessage w m msgs later) = Returned (accepted, msgs')"
    from shape show "\<not> accepted \<and> msgs' \<in> set (msgs # later)"
    proof
      assume "\<exists>ok cur. out = Returned (ok, cur)
                  \<and> ResolveMessage w m msgs later
                      = (evs @ [LogInfo NotMine], Returned (False, cur))"
      then obtain ok cur where o: "out = Returned (ok, cur)"
        and rm: "ResolveMessage w m msgs later = (evs @ [LogInfo NotMine], Returned (False, cur))"
        by blast
      from a have e: "accepted = False" "cur = msgs'" unfolding rm by simp_all
      have "snd (checkRepeat m msgs later) = Returned (ok, msgs')"
        unfolding co o e by simp
      from checkRepeat_current [OF this] e(1)
      show ?thesis by simp
    next
      assume n: "out \<noteq> Returned (accepted, msgs') \<and> ResolveMessage w m msgs later = (evs, out)"
      then have "snd (ResolveMessage w m msgs later) = out" by simp
      with a n show ?thesis by simp
    qed
  qed
  have four: "Spawn \<notin> set (fst (ResolveMessage w m msgs later))"
  proof (rule disjE [OF shape])
    assume "\<exists>ok cur. out = Returned (ok, cur)
                  \<and> ResolveMessage w m msgs later
                      = (evs @ [LogInfo NotMine], Returned (False, cur))"
    then obtain cur where
      "ResolveMessage w m msgs later = (evs @ [LogInfo NotMine], Returned (False, cur))"
      by blast
    then show ?thesis using nospawn by simp
  next
    assume "out \<noteq> Returned (accepted, msgs') \<and> ResolveMessage w m msgs later = (evs, out)"
    then show ?thesis using nospawn by simp
  qed
  have five: "msgs # later = blocked @ clear # rest
            \<and> (\<forall>s \<in> set blocked. repeatsIn m amountBytes recipient s)
            \<and> \<not> repeatsIn m amountBytes recipient clear \<longrightarrow>
          ResolveMessage w m msgs later
            = (concat (map (\<lambda>s. [LogInfo MeetARepeatTx, Sleep RoundInterval]) blocked)
                 @ [LogInfo NotMine],
               Returned (False, clear))"
  proof
    assume h: "msgs # later = blocked @ clear # rest
            \<and> (\<forall>s \<in> set blocked. repeatsIn m amountBytes recipient s)
            \<and> \<not> repeatsIn m amountBytes recipient clear"
    then have h1: "msgs # later = blocked @ clear # rest"
      and h2: "\<forall>s \<in> set blocked. repeatsIn m amountBytes recipient s"
      and h3: "\<not> repeatsIn m amountBytes recipient clear"
      by blast+
    note c = checkRepeat_polls [OF p0 p1 h1 h2 h3]
    show "ResolveMessage w m msgs later
            = (concat (map (\<lambda>s. [LogInfo MeetARepeatTx, Sleep RoundInterval]) blocked)
                 @ [LogInfo NotMine],
               Returned (False, clear))"
      unfolding ResolveMessage_def c using dest by simp
  qed
  have six: "(\<forall>s \<in> set (msgs # later). repeatsIn m amountBytes recipient s) \<longrightarrow>
          ResolveMessage w m msgs later
            = (concat (map (\<lambda>s. [LogInfo MeetARepeatTx, Sleep RoundInterval]) (msgs # later)),
               Waiting)"
  proof
    assume h: "\<forall>s \<in> set (msgs # later). repeatsIn m amountBytes recipient s"
    note c = checkRepeat_all_blocked [OF p0 p1 h]
    show "ResolveMessage w m msgs later
            = (concat (map (\<lambda>s. [LogInfo MeetARepeatTx, Sleep RoundInterval]) (msgs # later)),
               Waiting)"
      unfolding ResolveMessage_def c by simp
  qed
  show ?thesis
    by (intro conjI) (rule one, rule two, rule three, rule four, rule five, rule six)
qed

theorem ResolveMessage_not_mine_witness:
  "Destination (exMsg 2 dot2000) \<noteq> chainId exWriter
   \<and> payloadBytes (exMsg 2 dot2000) 0 = Inr dot2000
   \<and> payloadBytes (exMsg 2 dot2000) 1 = Inr [1, 2]
   \<and> repeatsIn (exMsg 2 dot2000) dot2000 [1, 2] exInFlight
   \<and> \<not> repeatsIn (exMsg 2 dot2000) dot2000 [1, 2] []
   \<and> exInFlight # [exInFlight, []] = [exInFlight, exInFlight] @ [] # []
   \<and> ResolveMessage exWriter (exMsg 2 dot2000) exInFlight [exInFlight, []]
       = ([LogInfo MeetARepeatTx, Sleep RoundInterval,
           LogInfo MeetARepeatTx, Sleep RoundInterval, LogInfo NotMine],
          Returned (False, []))
   \<and> [] \<in> set (exInFlight # [exInFlight, []])
   \<and> Spawn \<notin> set (fst (ResolveMessage exWriter (exMsg 2 dot2000) exInFlight [exInFlight, []]))"
proof -
  have d: "Destination (exMsg 2 dot2000) \<noteq> chainId exWriter"
    by (simp add: exMsg_def exWriter_def)
  have p0: "payloadBytes (exMsg 2 dot2000) 0 = Inr dot2000"
    by (simp add: payloadBytes_def exMsg_def)
  have p1: "payloadBytes (exMsg 2 dot2000) 1 = Inr [1, 2]"
    by (simp add: payloadBytes_def exMsg_def)
  have r: "repeatsIn (exMsg 2 dot2000) dot2000 [1, 2] exInFlight"
    by (simp add: repeatsIn_def exInFlight_def exMsg_def)
  have n: "\<not> repeatsIn (exMsg 2 dot2000) dot2000 [1, 2] []"
    by (simp add: repeatsIn_def)
  have e: "exInFlight # [exInFlight, []] = [exInFlight, exInFlight] @ [] # []" by simp
  have b: "\<forall>s \<in> set [exInFlight, exInFlight]. repeatsIn (exMsg 2 dot2000) dot2000 [1, 2] s"
    using r by simp
  note t = ResolveMessage_not_mine [OF d p0 p1, where msgs = exInFlight
      and later = "[exInFlight, []]" and accepted = False and msgs' = "[]"
      and blocked = "[exInFlight, exInFlight]" and clear = "[]" and rest = "[]"]
  have t5: "ResolveMessage exWriter (exMsg 2 dot2000) exInFlight [exInFlight, []]
       = (concat (map (\<lambda>s. [LogInfo MeetARepeatTx, Sleep RoundInterval])
                    [exInFlight, exInFlight]) @ [LogInfo NotMine],
          Returned (False, []))"
    using t e b n by blast
  have t4: "Spawn \<notin> set (fst (ResolveMessage exWriter (exMsg 2 dot2000) exInFlight
                                  [exInFlight, []]))"
    using t by blast
  have t5': "ResolveMessage exWriter (exMsg 2 dot2000) exInFlight [exInFlight, []]
       = ([LogInfo MeetARepeatTx, Sleep RoundInterval,
           LogInfo MeetARepeatTx, Sleep RoundInterval, LogInfo NotMine],
          Returned (False, []))"
    using t5 by simp
  have mem: "[] \<in> set (exInFlight # [exInFlight, []])" by simp
  show ?thesis
    by (intro conjI) (rule d, rule p0, rule p1, rule r, rule n, rule e, rule t5', rule mem,
        rule t4)
qed

end
